theory Spec2Isabelle
  imports Complex_Main
begin

section \<open>Python values of \<^verbatim>\<open>mcp_search.py\<close>\<close>

text \<open>
  A Python \<^verbatim>\<open>str\<close> is a sequence of Unicode code points, and \<^verbatim>\<open>len\<close> and slicing count
  code points; a string is therefore a list of code points. ASCII literals of the source are
  written through \<open>ustr\<close>, the others as their code points.
\<close>

type_synonym pystr = "nat list"

definition ustr :: "string \<Rightarrow> pystr" where
  "ustr s = map of_char s"

text \<open>
  What \<^verbatim>\<open>json.loads\<close> can return: \<^verbatim>\<open>None\<close>, booleans, integers, strings, lists and
  objects with string keys (an association list, read with \<open>map_of\<close>). JSON numbers with a
  fraction or an exponent (Python floats) are not part of the model.
\<close>

datatype pyval =
    PNone
  | PBool bool
  | PInt int
  | PStr pystr
  | PList "pyval list"
  | PDict "(pystr \<times> pyval) list"

text \<open>
  The exceptions the code meets; each carries what \<^verbatim>\<open>str(e)\<close> needs. \<open>KeyError\<close> holds the
  missing key, the others their message. \<open>OtherError\<close> stands for whatever a collaborator
  raises (transport, quota, decoding errors).
\<close>

datatype exc =
    KeyError pystr
  | TypeError pystr
  | IndexError pystr
  | AttributeError pystr
  | OtherError pystr

fun exc_str :: "exc \<Rightarrow> pystr" where
  \<comment> \<open>\<^verbatim>\<open>str(e)\<close>; for a KeyError the quoted key (keys here hold no quote or escape)\<close>
  "exc_str (KeyError k) = 39 # k @ [39]"
| "exc_str (TypeError m) = m"
| "exc_str (IndexError m) = m"
| "exc_str (AttributeError m) = m"
| "exc_str (OtherError m) = m"

fun py_truthy :: "pyval \<Rightarrow> bool" where
  \<comment> \<open>the truth value Python's \<^verbatim>\<open>if v:\<close> tests\<close>
  "py_truthy PNone = False"
| "py_truthy (PBool b) = b"
| "py_truthy (PInt i) = (i \<noteq> 0)"
| "py_truthy (PStr s) = (s \<noteq> [])"
| "py_truthy (PList xs) = (xs \<noteq> [])"
| "py_truthy (PDict kvs) = (kvs \<noteq> [])"

definition quoted :: "string \<Rightarrow> pystr" where
  \<comment> \<open>a word between single quotes, as Python's messages name a type\<close>
  "quoted w = 39 # ustr w @ [39]"

fun py_getitem :: "pyval \<Rightarrow> pystr \<Rightarrow> exc + pyval" where
  \<comment> \<open>\<^verbatim>\<open>v[key]\<close> for a string key: only a dict holding the key answers\<close>
  "py_getitem (PDict kvs) k = (case map_of kvs k of None \<Rightarrow> Inl (KeyError k) | Some v \<Rightarrow> Inr v)"
| "py_getitem (PList xs) k =
     Inl (TypeError (ustr ''list indices must be integers or slices, not str''))"
| "py_getitem (PStr s) k =
     Inl (TypeError (ustr ''string indices must be integers, not '' @ quoted ''str''))"
| "py_getitem PNone k = Inl (TypeError (quoted ''NoneType'' @ ustr '' object is not subscriptable''))"
| "py_getitem (PBool b) k = Inl (TypeError (quoted ''bool'' @ ustr '' object is not subscriptable''))"
| "py_getitem (PInt i) k = Inl (TypeError (quoted ''int'' @ ustr '' object is not subscriptable''))"

text \<open>
  A dictionary key must be hashable: lists and dicts are not. Among the hashable values,
  \<^verbatim>\<open>True\<close> and \<^verbatim>\<open>1\<close> (and \<^verbatim>\<open>False\<close> and \<^verbatim>\<open>0\<close>) are the same key.
\<close>

datatype atom = ANone | ABool bool | AInt int | AStr pystr

fun py_hashable :: "pyval \<Rightarrow> exc + atom" where
  "py_hashable PNone = Inr ANone"
| "py_hashable (PBool b) = Inr (ABool b)"
| "py_hashable (PInt i) = Inr (AInt i)"
| "py_hashable (PStr s) = Inr (AStr s)"
| "py_hashable (PList xs) = Inl (TypeError (ustr ''unhashable type: '' @ quoted ''list''))"
| "py_hashable (PDict kvs) = Inl (TypeError (ustr ''unhashable type: '' @ quoted ''dict''))"

datatype ckey = KNone | KInt int | KStr pystr

fun ckey_of :: "atom \<Rightarrow> ckey" where
  "ckey_of ANone = KNone"
| "ckey_of (ABool b) = KInt (if b then 1 else 0)"
| "ckey_of (AInt i) = KInt i"
| "ckey_of (AStr s) = KStr s"

subsection \<open>String operations\<close>

definition py_isspace :: "nat \<Rightarrow> bool" where
  \<comment> \<open>the code points \<^verbatim>\<open>str.strip()\<close> removes (those with \<^verbatim>\<open>str.isspace()\<close>)\<close>
  "py_isspace c \<longleftrightarrow>
     (9 \<le> c \<and> c \<le> 13) \<or> (28 \<le> c \<and> c \<le> 32) \<or> c = 133 \<or> c = 160 \<or> c = 5760 \<or>
     (8192 \<le> c \<and> c \<le> 8202) \<or> c = 8232 \<or> c = 8233 \<or> c = 8239 \<or> c = 8287 \<or> c = 12288"

definition py_strip :: "pystr \<Rightarrow> pystr" where
  "py_strip s = rev (dropWhile py_isspace (rev (dropWhile py_isspace s)))"

fun py_split :: "nat \<Rightarrow> pystr \<Rightarrow> pystr list" where
  \<comment> \<open>\<^verbatim>\<open>s.split(sep)\<close> for a separator of one code point\<close>
  "py_split sep [] = [[]]"
| "py_split sep (c # cs) =
     (if c = sep then [] # py_split sep cs
      else (case py_split sep cs of [] \<Rightarrow> [[c]] | l # ls \<Rightarrow> (c # l) # ls))"

fun py_join :: "pystr \<Rightarrow> pystr list \<Rightarrow> pystr" where
  \<comment> \<open>\<^verbatim>\<open>sep.join(xs)\<close>\<close>
  "py_join sep [] = []"
| "py_join sep [x] = x"
| "py_join sep (x # y # ys) = x @ sep @ py_join sep (y # ys)"

definition py_slice_to :: "'a list \<Rightarrow> int \<Rightarrow> 'a list" where
  \<comment> \<open>\<^verbatim>\<open>xs[:n]\<close>: a negative bound counts from the end\<close>
  "py_slice_to xs n = (if 0 \<le> n then take (nat n) xs else take (length xs - nat (- n)) xs)"

function nat_digits :: "nat \<Rightarrow> pystr" where
  "nat_digits n = (if n < 10 then [48 + n] else nat_digits (n div 10) @ [48 + n mod 10])"
  by pat_completeness auto
termination
  by (relation "measure (\<lambda>n. n)") auto

declare nat_digits.simps [simp del]

definition py_int_str :: "int \<Rightarrow> pystr" where
  \<comment> \<open>\<^verbatim>\<open>str(i)\<close> of an integer\<close>
  "py_int_str i = (if i < 0 then 45 # nat_digits (nat (- i)) else nat_digits (nat i))"

fun atom_str :: "atom \<Rightarrow> pystr" where
  \<comment> \<open>how an f-string placeholder renders a hashable value\<close>
  "atom_str ANone = ustr ''None''"
| "atom_str (ABool b) = (if b then ustr ''True'' else ustr ''False'')"
| "atom_str (AInt i) = py_int_str i"
| "atom_str (AStr s) = s"

subsection \<open>The literals of the source\<close>

text \<open>
  The string literals of the source that are not ASCII, as lists of code points, in the
  order of the file. The pieces of an f-string are the text between its placeholders.
\<close>

definition decision_prompt_head :: pystr where
  \<comment> \<open>lines 42-44: the template up to the character name (45 code points)\<close>
  "decision_prompt_head =
     [20320, 26159, 19968, 20010, 26234, 33021, 25628, 32034, 31574, 30053, 21161, 25163, 65292,
      36127, 36131, 21028, 26029, 29992, 25143, 30340, 38382, 39064, 26159, 21542, 38656, 35201,
      32593, 32476, 25628, 32034, 65292, 24182, 29983, 25104, 26368, 20248, 25628, 32034, 35789,
      12290, 10, 10, 35282, 33394, 65306]"

definition decision_prompt_mid :: pystr where
  \<comment> \<open>lines 44-45: between the character name and the user message\<close>
  "decision_prompt_mid =
     [10, 29992, 25143, 38382, 39064, 65306]"

definition decision_prompt_tail :: pystr where
  \<comment> \<open>lines 45-67: the rest of the template, with the doubled braces of the f-string read as single ones (397 code points)\<close>
  "decision_prompt_tail =
     [10, 10, 42, 42, 38656, 35201, 25628, 32034, 30340, 24773, 20917, 65306, 42, 42, 10, 49,
      46, 32, 28041, 21450, 20855, 20307, 30340, 21382, 21490, 20107, 20214, 12289, 25925,
      20107, 24773, 33410, 32454, 33410, 10, 50, 46, 32, 25552, 21040, 21407, 33879, 20013,
      30340, 20855, 20307, 22330, 26223, 12289, 23545, 35805, 12289, 21488, 35789, 10, 51, 46,
      32, 35810, 38382, 35282, 33394, 32972, 26223, 25925, 20107, 30340, 35814, 32454, 20869,
      23481, 65288, 22914, 31216, 21495, 30001, 26469, 12289, 32463, 21382, 12289, 20851, 31995,
      31561, 65289, 10, 52, 46, 32, 38656, 35201, 24341, 29992, 21407, 20316, 20869, 23481,
      30340, 38382, 39064, 10, 53, 46, 32, 35810, 38382, 20855, 20307, 30340, 25216, 26415,
      32454, 33410, 12289, 19987, 19994, 30693, 35782, 10, 54, 46, 32, 38656, 35201, 30495,
      23454, 25968, 25454, 12289, 20107, 23454, 26680, 26597, 30340, 38382, 39064, 10, 10, 42,
      42, 25628, 32034, 35789, 29983, 25104, 21407, 21017, 65306, 42, 42, 10, 49, 46, 32, 20351,
      29992, 31934, 30830, 30340, 20851, 38190, 35789, 32452, 21512, 65288, 50, 45, 52, 20010,
      35789, 65289, 10, 50, 46, 32, 20248, 20808, 20351, 29992, 20013, 25991, 65292, 21253,
      21547, 26680, 24515, 27010, 24565, 10, 51, 46, 32, 36991, 20813, 22826, 23485, 27867,
      65288, 22914, 21482, 25628, 34, 23385, 24735, 31354, 34, 65289, 65292, 35201, 20855,
      20307, 65288, 22914, 34, 23385, 24735, 31354, 32, 40784, 22825, 22823, 22307, 32, 31216,
      21495, 30001, 26469, 34, 65289, 10, 52, 46, 32, 22914, 26524, 26159, 35282, 33394, 30456,
      20851, 65292, 21152, 19978, 20316, 21697, 21517, 65288, 22914, 34, 35199, 28216, 35760,
      32, 23385, 24735, 31354, 32, 22823, 38393, 22825, 23467, 34, 65289, 10, 53, 46, 32, 22914,
      26524, 26159, 25216, 26415, 38382, 39064, 65292, 21152, 19978, 20851, 38190, 26415, 35821,
      10, 10, 35831, 20197, 74, 83, 79, 78, 26684, 24335, 22238, 22797, 65306, 10, 123, 10, 32,
      32, 32, 32, 34, 110, 101, 101, 100, 95, 115, 101, 97, 114, 99, 104, 34, 58, 32, 116, 114,
      117, 101, 47, 102, 97, 108, 115, 101, 44, 10, 32, 32, 32, 32, 34, 115, 101, 97, 114, 99,
      104, 95, 113, 117, 101, 114, 121, 34, 58, 32, 34, 31934, 30830, 30340, 25628, 32034,
      20851, 38190, 35789, 32452, 21512, 34, 44, 10, 32, 32, 32, 32, 34, 114, 101, 97, 115, 111,
      110, 34, 58, 32, 34, 21028, 26029, 29702, 30001, 65288, 20026, 20160, 20040, 38656, 35201,
      47, 19981, 38656, 35201, 25628, 32034, 65289, 34, 10, 125]"

definition summary_prompt_head :: pystr where
  \<comment> \<open>line 221: the template up to the query\<close>
  "summary_prompt_head =
     [20320, 26159, 19968, 20010, 19987, 19994, 30340, 20449, 24687, 25552, 21462, 21161, 25163,
      12290, 35831, 20180, 32454, 38405, 35835, 20197, 19979, 20851, 20110, 34]"

definition summary_prompt_mid :: pystr where
  \<comment> \<open>lines 221-223: between the query and the results text\<close>
  "summary_prompt_mid =
     [34, 30340, 32593, 39029, 20869, 23481, 65292, 25552, 21462, 26368, 26377, 20215, 20540,
      30340, 20449, 24687, 12290, 10, 10]"

definition summary_prompt_tail :: pystr where
  \<comment> \<open>lines 223-236: the requirements that follow the results text (263 code points)\<close>
  "summary_prompt_tail =
     [10, 10, 35201, 27714, 65306, 10, 49, 46, 32, 42, 42, 28145, 24230, 25552, 21462, 42, 42,
      65306, 20174, 32593, 39029, 20840, 25991, 20013, 25552, 21462, 35814, 32454, 30340, 20107,
      23454, 20449, 24687, 65292, 21253, 25324, 32972, 26223, 12289, 32454, 33410, 12289, 25968,
      25454, 31561, 10, 50, 46, 32, 42, 42, 32467, 26500, 21270, 36755, 20986, 42, 42, 65306,
      29992, 28165, 26224, 30340, 27573, 33853, 32452, 32455, 20449, 24687, 65292, 21253, 21547,
      65306, 10, 32, 32, 32, 45, 32, 26680, 24515, 20107, 23454, 65288, 26159, 20160, 20040,
      65289, 10, 32, 32, 32, 45, 32, 32972, 26223, 20449, 24687, 65288, 20026, 20160, 20040,
      12289, 24590, 20040, 26469, 30340, 65289, 10, 32, 32, 32, 45, 32, 30456, 20851, 32454,
      33410, 65288, 20855, 20307, 24773, 20917, 12289, 25968, 25454, 12289, 20363, 23376, 65289,
      10, 51, 46, 32, 42, 42, 20445, 25345, 20934, 30830, 42, 42, 65306, 21482, 20351, 29992,
      25628, 32034, 32467, 26524, 20013, 30340, 20449, 24687, 65292, 19981, 28155, 21152, 25512,
      27979, 10, 52, 46, 32, 42, 42, 20449, 24687, 20016, 23500, 42, 42, 65306, 36755, 20986,
      24212, 35813, 26159, 35814, 32454, 30340, 65288, 50, 48, 48, 45, 52, 48, 48, 23383, 65289,
      65292, 32780, 19981, 26159, 31616, 21333, 27010, 25324, 10, 53, 46, 32, 42, 42, 21435,
      37325, 21512, 24182, 42, 42, 65306, 22914, 26524, 22810, 20010, 26469, 28304, 26377,
      30456, 21516, 20449, 24687, 65292, 21512, 24182, 21518, 21482, 35828, 19968, 27425, 10,
      54, 46, 32, 42, 42, 20445, 25345, 20013, 25991, 42, 42, 65306, 20840, 37096, 20351, 29992,
      20013, 25991, 36755, 20986, 10, 10, 35831, 25552, 20379, 35814, 32454, 30340, 24635,
      32467, 65306]"

definition enhance_part1 :: pystr where
  \<comment> \<open>lines 273-275: up to the user message\<close>
  "enhance_part1 =
     [10, 12304, 128269, 32, 77, 67, 80, 32972, 26223, 30693, 35782, 22686, 24378, 12305, 10,
      29992, 25143, 35810, 38382, 65306]"

definition enhance_part2 :: pystr where
  \<comment> \<open>lines 275-280: up to the summary\<close>
  "enhance_part2 =
     [10, 10, 9473, 9473, 9473, 9473, 9473, 9473, 9473, 9473, 9473, 9473, 9473, 9473, 9473,
      9473, 9473, 9473, 9473, 9473, 9473, 9473, 9473, 9473, 9473, 9473, 9473, 9473, 9473, 9473,
      9473, 9473, 9473, 9473, 9473, 9473, 9473, 9473, 9473, 9473, 9473, 9473, 10, 128218, 32,
      30456, 20851, 30495, 23454, 36164, 26009, 65288, 26469, 33258, 32593, 32476, 25628, 32034,
      24182, 32463, 65, 73, 25552, 21462, 65289, 65306, 10, 10]"

definition enhance_part3 :: pystr where
  \<comment> \<open>lines 280-286: up to the first character name\<close>
  "enhance_part3 =
     [10, 10, 9473, 9473, 9473, 9473, 9473, 9473, 9473, 9473, 9473, 9473, 9473, 9473, 9473,
      9473, 9473, 9473, 9473, 9473, 9473, 9473, 9473, 9473, 9473, 9473, 9473, 9473, 9473, 9473,
      9473, 9473, 9473, 9473, 9473, 9473, 9473, 9473, 9473, 9473, 9473, 9473, 10, 10, 42, 42,
      37325, 35201, 25351, 31034, 65306, 42, 42, 10, 49, 46, 32, 42, 42, 20248, 20808, 20351,
      29992, 30495, 23454, 36164, 26009, 42, 42, 65306, 20197, 19978, 25628, 32034, 32467,
      26524, 26159, 20174, 21487, 38752, 26469, 28304, 25552, 21462, 30340, 30495, 23454, 20449,
      24687, 65292, 35831, 23558, 20854, 20316, 20026, 22238, 31572, 30340, 20027, 35201, 20381,
      25454, 10, 50, 46, 32, 42, 42, 34701, 20837, 35282, 33394, 20154, 26684, 42, 42, 65306,
      29992]"

definition enhance_part4 :: pystr where
  \<comment> \<open>lines 286-292: up to the second character name\<close>
  "enhance_part4 =
     [30340, 21475, 21563, 12289, 35821, 35328, 39118, 26684, 12289, 24615, 26684, 29305, 28857,
      26469, 34920, 36798, 36825, 20123, 20449, 24687, 10, 51, 46, 32, 42, 42, 35814, 32454,
      19988, 29983, 21160, 42, 42, 65306, 22522, 20110, 36825, 20123, 35814, 23454, 30340,
      32972, 26223, 36164, 26009, 65292, 32473, 20986, 20016, 23500, 12289, 20855, 20307, 12289,
      26377, 32454, 33410, 30340, 22238, 31572, 10, 52, 46, 32, 42, 42, 31532, 19968, 20154,
      31216, 35270, 35282, 42, 42, 65306, 22914, 26524, 26159, 35282, 33394, 33258, 36523,
      30340, 20107, 24773, 65292, 29992, 31532, 19968, 20154, 31216, 35762, 36848, 65288, 34,
      25105, 24403, 26102, 46, 46, 46, 34, 65289, 10, 53, 46, 32, 42, 42, 33258, 28982, 24341,
      29992, 42, 42, 65306, 23558, 32972, 26223, 30693, 35782, 33258, 28982, 22320, 34701,
      20837, 23545, 35805, 20013, 65292, 23601, 20687, 35282, 33394, 22312, 22238, 24518, 25110,
      35762, 36848, 33258, 24049, 30340, 32463, 21382, 10, 54, 46, 32, 42, 42, 20445, 25345,
      30495, 23454, 24615, 42, 42, 65306, 19981, 35201, 32534, 36896, 25628, 32034, 32467,
      26524, 20013, 27809, 26377, 30340, 20449, 24687, 65292, 22914, 26524, 26576, 20123, 32454,
      33410, 19981, 30830, 23450, 65292, 21487, 20197, 35828, 34, 25105, 35760, 24471, 22823,
      27010, 26159, 46, 46, 46, 34, 10, 10, 35831, 29616, 22312, 20197]"

definition enhance_part5 :: pystr where
  \<comment> \<open>line 292: the closing words\<close>
  "enhance_part5 =
     [30340, 36523, 20221, 65292, 22522, 20110, 19978, 36848, 30495, 23454, 36164, 26009, 65292,
      22238, 31572, 29992, 25143, 30340, 38382, 39064, 12290]"

definition source_label_open :: pystr where
  \<comment> \<open>line 217: opening bracket and the word for source, before the number\<close>
  "source_label_open =
     [12304, 26469, 28304, 32]"

definition source_label_close :: pystr where
  \<comment> \<open>line 217: closing bracket after the number\<close>
  "source_label_close =
     [12305]"

definition source_url_label :: pystr where
  \<comment> \<open>line 217: newline and the label of the url\<close>
  "source_url_label =
     [10, 32593, 22336, 65306]"

definition source_content_label :: pystr where
  \<comment> \<open>line 217: two newlines, the label of the content, newline\<close>
  "source_content_label =
     [10, 10, 20869, 23481, 25688, 35201, 65306, 10]"

definition fallback_open :: pystr where
  \<comment> \<open>line 254: opening bracket before the title\<close>
  "fallback_open =
     [12304]"

definition fallback_close :: pystr where
  \<comment> \<open>line 254: closing bracket and newline after the title\<close>
  "fallback_close =
     [12305, 10]"

definition no_information_marker :: pystr where
  \<comment> \<open>lines 213 and 381: the marker returned when nothing was found\<close>
  "no_information_marker =
     [26410, 25214, 21040, 30456, 20851, 20449, 24687]"

definition decision_failed_reason :: pystr where
  \<comment> \<open>line 82: the reason of the default decision (the words for decision failed)\<close>
  "decision_failed_reason =
     [20915, 31574, 22833, 36133]"

definition apology_prefix :: pystr where
  \<comment> \<open>line 426: the apology, up to the colon that precedes the error\<close>
  "apology_prefix =
     [25265, 27465, 65292, 22238, 22797, 29983, 25104, 22833, 36133, 65306]"

definition newline :: pystr where
  "newline = [10]"

definition ellipsis :: pystr where
  \<comment> \<open>line 117: the three dots appended to a truncated page\<close>
  "ellipsis = ustr ''...''"

section \<open>Data model\<close>

text \<open>
  The dictionaries of the source with fixed keys are records. A chat message and the
  keyword arguments of \<^verbatim>\<open>client.chat.completions.create\<close>:
\<close>

record message =
  role :: pystr
  content :: pystr

record chat_request =
  model :: pystr
  messages :: "message list"
  temperature :: real
  response_format :: "pystr option"
  max_tokens :: "int option"

text \<open>
  What the completion call returns, as far as the code reads it: the content of each choice
  (\<^verbatim>\<open>None\<close> is possible) and the usage block (optional in the client's type).
\<close>

record completion_usage =
  prompt_tokens :: int
  completion_tokens :: int
  total_tokens :: int

record completion =
  choices :: "pystr option list"
  usage :: "completion_usage option"

text \<open>
  The keyword arguments of \<^verbatim>\<open>ddgs.text\<close> (lines 151-157), and a hit of the backend: the
  dictionary that lines 167-169 read with \<^verbatim>\<open>r.get(key, '')\<close> for the keys \<open>href\<close>,
  \<open>title\<close> and \<open>body\<close>, each of which may be missing. \<open>href\<close> and \<open>body\<close> are strings. The
  title is a string or another scalar (\<^verbatim>\<open>None\<close>, a boolean, an integer), which line 172
  cannot slice. A value of \<open>href\<close> or \<open>body\<close> that is not a string would be stored in the
  result as it is; the results of the model hold strings, so such hits are outside it.
\<close>

record ddgs_params =
  query :: atom
  max_results :: int
  safesearch :: pystr
  region :: "pystr option"

datatype hit = Hit (hit_href: "pystr option") (hit_title: "atom option") (hit_body: "pystr option")

record search_result =
  title :: pystr
  snippet :: pystr
  full_content :: pystr
  url :: pystr

record cache_entry =
  summary :: pystr
  results :: "search_result list"

record chat_turn_result =
  response :: "pystr option"
  tokens_used :: int
  cost :: real
  search_performed :: bool
  search_query :: atom
  search_summary :: pystr
  search_results :: "search_result list"

subsection \<open>Collaborators and state\<close>

text \<open>
  The collaborators are outside the repository: the chat completion client, the search
  backend, the HTTP fetch with the HTML parser, and \<^verbatim>\<open>json.loads\<close>. Their behaviour is a
  parameter. The first three act on a world \<open>'w\<close> that they may change at every call, so
  that two calls with the same arguments can answer differently; each returns a value or
  raises. \<open>page_text\<close> stands for lines 96-109: the GET request, the parse, the removal of
  the script, style, nav, footer and header elements, and \<^verbatim>\<open>get_text\<close>.
\<close>

record 'w env =
  chat_completions_create :: "chat_request \<Rightarrow> 'w \<Rightarrow> (exc + completion) \<times> 'w"
  json_loads :: "pystr \<Rightarrow> exc + pyval"
  ddgs_text :: "ddgs_params \<Rightarrow> 'w \<Rightarrow> (exc + hit list) \<times> 'w"
  page_text :: "pystr \<Rightarrow> 'w \<Rightarrow> (exc + pystr) \<times> 'w"

text \<open>
  The calls a run makes, in order: those to the collaborators, and the entries into
  \<^verbatim>\<open>search_web\<close> and \<^verbatim>\<open>summarize_search_results\<close>. A call to the search backend is
  recorded with its answer. The list is not in the source; it records what the source
  does, so that a property can count calls and name the answers of a run.
\<close>

datatype event =
    EvChat chat_request
  | EvDdgs ddgs_params "exc + hit list"
  | EvGet pystr
  | EvSearchWeb atom int
  | EvSummarize atom "search_result list"

text \<open>
  The state: \<^verbatim>\<open>self.search_cache\<close> of the manager (line 302), the world of the
  collaborators, and the calls made so far.
\<close>

record 'w state =
  search_cache :: "ckey \<rightharpoonup> cache_entry"
  world :: 'w
  calls :: "event list"

definition call_chat :: "'w env \<Rightarrow> chat_request \<Rightarrow> 'w state \<Rightarrow> (exc + completion) \<times> 'w state" where
  "call_chat E req s =
     (case chat_completions_create E req (world s) of
        (r, w') \<Rightarrow> (r, s\<lparr>world := w', calls := calls s @ [EvChat req]\<rparr>))"

definition call_ddgs :: "'w env \<Rightarrow> ddgs_params \<Rightarrow> 'w state \<Rightarrow> (exc + hit list) \<times> 'w state" where
  "call_ddgs E ps s =
     (case ddgs_text E ps (world s) of
        (r, w') \<Rightarrow> (r, s\<lparr>world := w', calls := calls s @ [EvDdgs ps r]\<rparr>))"

definition call_page :: "'w env \<Rightarrow> pystr \<Rightarrow> 'w state \<Rightarrow> (exc + pystr) \<times> 'w state" where
  "call_page E u s =
     (case page_text E u (world s) of
        (r, w') \<Rightarrow> (r, s\<lparr>world := w', calls := calls s @ [EvGet u]\<rparr>))"

definition first_content :: "completion \<Rightarrow> exc + pystr option" where
  \<comment> \<open>\<^verbatim>\<open>response.choices[0].message.content\<close>\<close>
  "first_content resp =
     (case choices resp of
        [] \<Rightarrow> Inl (IndexError (ustr ''list index out of range''))
      | c # _ \<Rightarrow> Inr c)"

section \<open>MCPSearchEngine\<close>

text \<open>
  Every method returns a value or an exception, and the state it leaves:
  \<open>(exc + 'a) \<times> 'w state\<close>, with \<open>Inl\<close> for a raise. A \<^verbatim>\<open>try\<close> block is a definition of
  its own (\<open>_try\<close>), and the method applies its \<^verbatim>\<open>except Exception\<close> handler to it.
  \<^verbatim>\<open>print\<close> is left out.
\<close>

subsection \<open>should_search (lines 27-82)\<close>

definition decision_prompt :: "pystr \<Rightarrow> pystr \<Rightarrow> pystr" where
  "decision_prompt user_message character_name =
     decision_prompt_head @ character_name @ decision_prompt_mid @ user_message @
     decision_prompt_tail"

definition decision_request :: "pystr \<Rightarrow> pystr \<Rightarrow> chat_request" where
  "decision_request user_message character_name =
     \<lparr>model = ustr ''gpt-4o-mini'',
      messages = [\<lparr>role = ustr ''user'', content = decision_prompt user_message character_name\<rparr>],
      temperature = 0.3,
      response_format = Some (ustr ''json_object''),
      max_tokens = None\<rparr>"

definition default_decision :: pyval where
  \<comment> \<open>line 82\<close>
  "default_decision =
     PDict [(ustr ''need_search'', PBool False),
            (ustr ''search_query'', PStr []),
            (ustr ''reason'', PStr decision_failed_reason)]"

definition should_search_try :: "'w env \<Rightarrow> pystr \<Rightarrow> pystr \<Rightarrow> 'w state \<Rightarrow> (exc + pyval) \<times> 'w state" where
  \<comment> \<open>lines 70-78; \<^verbatim>\<open>json.loads(None)\<close> raises a TypeError\<close>
  "should_search_try E user_message character_name s =
     (case call_chat E (decision_request user_message character_name) s of
        (Inl e, s') \<Rightarrow> (Inl e, s')
      | (Inr resp, s') \<Rightarrow>
          (case first_content resp of
             Inl e \<Rightarrow> (Inl e, s')
           | Inr None \<Rightarrow>
               (Inl (TypeError (ustr ''the JSON object must be str, bytes or bytearray, not NoneType'')), s')
           | Inr (Some c) \<Rightarrow> (json_loads E c, s')))"

definition should_search :: "'w env \<Rightarrow> pystr \<Rightarrow> pystr \<Rightarrow> 'w state \<Rightarrow> (exc + pyval) \<times> 'w state" where
  "should_search E user_message character_name s =
     (case should_search_try E user_message character_name s of
        (Inl e, s') \<Rightarrow> (Inr default_decision, s')
      | (Inr result, s') \<Rightarrow> (Inr result, s'))"

subsection \<open>fetch_webpage_content (lines 84-123)\<close>

definition clean_lines :: "pystr \<Rightarrow> pystr" where
  \<comment> \<open>lines 112-113\<close>
  "clean_lines text =
     py_join newline (map py_strip (filter (\<lambda>line. py_strip line \<noteq> []) (py_split 10 text)))"

definition truncate_text :: "pystr \<Rightarrow> int \<Rightarrow> pystr" where
  \<comment> \<open>lines 116-117\<close>
  "truncate_text text max_length =
     (if int (length text) > max_length then py_slice_to text max_length @ ellipsis else text)"

definition fetch_webpage_content_try :: "'w env \<Rightarrow> pystr \<Rightarrow> int \<Rightarrow> 'w state \<Rightarrow> (exc + pystr) \<times> 'w state" where
  \<comment> \<open>lines 96-119\<close>
  "fetch_webpage_content_try E u max_length s =
     (case call_page E u s of
        (Inl e, s') \<Rightarrow> (Inl e, s')
      | (Inr text, s') \<Rightarrow> (Inr (truncate_text (clean_lines text) max_length), s'))"

definition fetch_webpage_content :: "'w env \<Rightarrow> pystr \<Rightarrow> int \<Rightarrow> 'w state \<Rightarrow> (exc + pystr) \<times> 'w state" where
  "fetch_webpage_content E u max_length s =
     (case fetch_webpage_content_try E u max_length s of
        (Inl e, s') \<Rightarrow> (Inr [], s')
      | (Inr text, s') \<Rightarrow> (Inr text, s'))"

subsection \<open>search_web (lines 125-199)\<close>

text \<open>
  A strategy (lines 141-145) is its region, \<^verbatim>\<open>None\<close> for the first, and its safe-search
  level. The region is passed on only when it is truthy (line 156).
\<close>

definition search_strategies :: "(pystr option \<times> pystr) list" where
  "search_strategies =
     [(None, ustr ''moderate''),
      (Some (ustr ''wt-wt''), ustr ''moderate''),
      (Some (ustr ''cn-zh''), ustr ''off'')]"

definition search_params :: "atom \<Rightarrow> int \<Rightarrow> pystr option \<times> pystr \<Rightarrow> ddgs_params" where
  \<comment> \<open>lines 151-157\<close>
  "search_params q n strategy =
     \<lparr>query = q,
      max_results = n,
      safesearch = snd strategy,
      region = (case fst strategy of None \<Rightarrow> None | Some r \<Rightarrow> if r \<noteq> [] then Some r else None)\<rparr>"

definition hit_url :: "hit \<Rightarrow> pystr" where
  \<comment> \<open>line 167: \<^verbatim>\<open>r.get('href', '')\<close>\<close>
  "hit_url r = (case hit_href r of None \<Rightarrow> [] | Some u \<Rightarrow> u)"

definition hit_title_value :: "hit \<Rightarrow> atom" where
  \<comment> \<open>line 168: \<^verbatim>\<open>r.get('title', '')\<close>\<close>
  "hit_title_value r = (case hit_title r of None \<Rightarrow> AStr [] | Some t \<Rightarrow> t)"

definition hit_snippet :: "hit \<Rightarrow> pystr" where
  \<comment> \<open>line 169: \<^verbatim>\<open>r.get('body', '')\<close>\<close>
  "hit_snippet r = (case hit_body r of None \<Rightarrow> [] | Some b \<Rightarrow> b)"

fun unsliceable :: "atom \<Rightarrow> exc option" where
  \<comment> \<open>line 172: what \<^verbatim>\<open>title[:50]\<close> raises; only a string can be sliced\<close>
  "unsliceable (AStr t) = None"
| "unsliceable ANone = Some (TypeError (quoted ''NoneType'' @ ustr '' object is not subscriptable''))"
| "unsliceable (ABool b) = Some (TypeError (quoted ''bool'' @ ustr '' object is not subscriptable''))"
| "unsliceable (AInt i) = Some (TypeError (quoted ''int'' @ ustr '' object is not subscriptable''))"

text \<open>
  The loop over the hits of one strategy (lines 166-180). It appends to \<open>rs\<close>, the
  \<^verbatim>\<open>results\<close> of the source, which line 137 creates once for all strategies. The slice of
  line 172 stands in the argument of a print, so it is evaluated, and it raises on a title
  that is not a string, before the page is fetched. A raise leaves in \<open>rs\<close> what was
  appended before it. The title stored (line 176) is then a string, and \<open>atom_str\<close> gives it.
\<close>

fun fetch_hits :: "'w env \<Rightarrow> hit list \<Rightarrow> search_result list \<Rightarrow> 'w state \<Rightarrow>
    exc option \<times> search_result list \<times> 'w state" where
  "fetch_hits E [] rs s = (None, rs, s)"
| "fetch_hits E (r # hits) rs s =
     (case unsliceable (hit_title_value r) of
        Some e \<Rightarrow> (Some e, rs, s)
      | None \<Rightarrow>
          (case fetch_webpage_content E (hit_url r) 3000 s of
             (Inl e, s') \<Rightarrow> (Some e, rs, s')
           | (Inr fc, s') \<Rightarrow>
               fetch_hits E hits
                 (rs @ [\<lparr>title = atom_str (hit_title_value r),
                         snippet = hit_snippet r,
                         full_content = (if fc \<noteq> [] then fc else hit_snippet r),
                         url = hit_url r\<rparr>])
                 s'))"

text \<open>
  The \<^verbatim>\<open>try\<close> block of one strategy (lines 149-184): \<open>Inr True\<close> is the \<^verbatim>\<open>break\<close> of
  line 182, \<open>Inr False\<close> the empty answer, \<open>Inl\<close> a raise of the backend or of the loop
  over the hits. A falsy answer of the backend and an empty list are the same (line 163).
\<close>

definition try_strategy :: "'w env \<Rightarrow> atom \<Rightarrow> int \<Rightarrow> pystr option \<times> pystr \<Rightarrow> search_result list \<Rightarrow>
    'w state \<Rightarrow> (exc + bool) \<times> search_result list \<times> 'w state" where
  "try_strategy E q n strategy rs s =
     (case call_ddgs E (search_params q n strategy) s of
        (Inl e, s') \<Rightarrow> (Inl e, rs, s')
      | (Inr hits, s') \<Rightarrow>
          if hits \<noteq> [] then
            (case fetch_hits E hits rs s' of
               (Some e, rs', s'') \<Rightarrow> (Inl e, rs', s'')
             | (None, rs', s'') \<Rightarrow> (Inr True, rs', s''))
          else (Inr False, rs, s'))"

fun search_loop :: "'w env \<Rightarrow> atom \<Rightarrow> int \<Rightarrow> (pystr option \<times> pystr) list \<Rightarrow> search_result list \<Rightarrow>
    'w state \<Rightarrow> search_result list \<times> 'w state" where
  \<comment> \<open>lines 147-188: a raise and an empty answer go on to the next strategy, with \<open>rs\<close> as it is\<close>
  "search_loop E q n [] rs s = (rs, s)"
| "search_loop E q n (strategy # rest) rs s =
     (case try_strategy E q n strategy rs s of
        (Inl e, rs', s') \<Rightarrow> search_loop E q n rest rs' s'
      | (Inr found, rs', s') \<Rightarrow> if found then (rs', s') else search_loop E q n rest rs' s')"

definition search_web_try :: "'w env \<Rightarrow> atom \<Rightarrow> int \<Rightarrow> 'w state \<Rightarrow>
    (exc + search_result list) \<times> 'w state" where
  \<comment> \<open>lines 137-193\<close>
  "search_web_try E q n s =
     (case search_loop E q n search_strategies [] s of (rs, s') \<Rightarrow> (Inr rs, s'))"

definition search_web :: "'w env \<Rightarrow> atom \<Rightarrow> int \<Rightarrow> 'w state \<Rightarrow>
    (exc + search_result list) \<times> 'w state" where
  "search_web E q n s =
     (case search_web_try E q n (s\<lparr>calls := calls s @ [EvSearchWeb q n]\<rparr>) of
        (Inl e, s') \<Rightarrow> (Inr [], s')
      | (Inr rs, s') \<Rightarrow> (Inr rs, s'))"

subsection \<open>summarize_search_results (lines 201-256)\<close>

definition source_block :: "nat \<times> search_result \<Rightarrow> pystr" where
  \<comment> \<open>line 217, for the pair \<^verbatim>\<open>(i, r)\<close> of \<^verbatim>\<open>enumerate\<close>\<close>
  "source_block ir =
     source_label_open @ py_int_str (int (fst ir) + 1) @ source_label_close @ title (snd ir) @
     source_url_label @ url (snd ir) @ source_content_label @
     py_slice_to (full_content (snd ir)) 1500"

definition results_text :: "search_result list \<Rightarrow> pystr" where
  \<comment> \<open>lines 216-219: two newlines, fifty equals signs, then the joined blocks\<close>
  "results_text rs =
     newline @ newline @ replicate 50 61 @
     py_join (newline @ newline) (map source_block (enumerate 0 (py_slice_to rs 5)))"

definition summary_prompt :: "atom \<Rightarrow> search_result list \<Rightarrow> pystr" where
  "summary_prompt q rs =
     summary_prompt_head @ atom_str q @ summary_prompt_mid @ results_text rs @ summary_prompt_tail"

definition summary_request :: "atom \<Rightarrow> search_result list \<Rightarrow> chat_request" where
  "summary_request q rs =
     \<lparr>model = ustr ''gpt-4o-mini'',
      messages = [\<lparr>role = ustr ''user'', content = summary_prompt q rs\<rparr>],
      temperature = 0.3,
      response_format = None,
      max_tokens = Some 1000\<rparr>"

definition fallback_summary :: "search_result list \<Rightarrow> pystr" where
  \<comment> \<open>lines 253-256\<close>
  "fallback_summary rs =
     py_join (newline @ newline)
       (map (\<lambda>r. fallback_open @ title r @ fallback_close @ py_slice_to (full_content r) 300)
            (py_slice_to rs 5))"

definition summarize_try :: "'w env \<Rightarrow> atom \<Rightarrow> search_result list \<Rightarrow> 'w state \<Rightarrow>
    (exc + pystr) \<times> 'w state" where
  \<comment> \<open>lines 239-248; \<^verbatim>\<open>len(summary)\<close> in the print of line 247 raises on \<^verbatim>\<open>None\<close>\<close>
  "summarize_try E q rs s =
     (case call_chat E (summary_request q rs) s of
        (Inl e, s') \<Rightarrow> (Inl e, s')
      | (Inr resp, s') \<Rightarrow>
          (case first_content resp of
             Inl e \<Rightarrow> (Inl e, s')
           | Inr None \<Rightarrow>
               (Inl (TypeError (ustr ''object of type '' @ quoted ''NoneType'' @ ustr '' has no len()'')), s')
           | Inr (Some c) \<Rightarrow> (Inr c, s')))"

definition summarize_search_results :: "'w env \<Rightarrow> atom \<Rightarrow> search_result list \<Rightarrow> 'w state \<Rightarrow>
    (exc + pystr) \<times> 'w state" where
  "summarize_search_results E q rs s =
     (let s0 = s\<lparr>calls := calls s @ [EvSummarize q rs]\<rparr> in
      if rs = [] then (Inr no_information_marker, s0)
      else
        (case summarize_try E q rs s0 of
           (Inl e, s') \<Rightarrow> (Inr (fallback_summary rs), s')
         | (Inr c, s') \<Rightarrow> (Inr c, s')))"

subsection \<open>enhance_context (lines 258-293)\<close>

definition enhance_context :: "pystr \<Rightarrow> pystr \<Rightarrow> pystr \<Rightarrow> pystr" where
  "enhance_context user_message character_name search_results_summary =
     enhance_part1 @ user_message @ enhance_part2 @ search_results_summary @ enhance_part3 @
     character_name @ enhance_part4 @ character_name @ enhance_part5"

section \<open>MCPChatManager.chat_with_mcp (lines 304-428)\<close>

definition initial_result :: chat_turn_result where
  \<comment> \<open>lines 337-345\<close>
  "initial_result =
     \<lparr>response = Some [], tokens_used = 0, cost = 0, search_performed = False,
      search_query = AStr [], search_summary = [], search_results = []\<rparr>"

definition lookup_or_search :: "'w env \<Rightarrow> atom \<Rightarrow> 'w state \<Rightarrow>
    (exc + pystr \<times> search_result list) \<times> 'w state" where
  \<comment> \<open>lines 358-383: the summary and the results, from the cache or from a search\<close>
  "lookup_or_search E sq s =
     (case search_cache s (ckey_of sq) of
        Some entry \<Rightarrow> (Inr (summary entry, results entry), s)
      | None \<Rightarrow>
          (case search_web E sq 8 s of
             (Inl e, s') \<Rightarrow> (Inl e, s')
           | (Inr rs, s') \<Rightarrow>
               if rs \<noteq> [] then
                 (case summarize_search_results E sq rs s' of
                    (Inl e, s'') \<Rightarrow> (Inl e, s'')
                  | (Inr sm, s'') \<Rightarrow>
                      (Inr (sm, rs),
                       s''\<lparr>search_cache :=
                             (search_cache s'')(ckey_of sq \<mapsto> \<lparr>summary = sm, results = rs\<rparr>)\<rparr>))
               else (Inr (no_information_marker, []), s')))"

text \<open>
  Lines 347-397: the decision and the search. The step returns the system prompt to use
  and the result so far. \<open>character\<close> is the character dictionary, with string values;
  \<^verbatim>\<open>character['name']\<close> raises a KeyError when the key is missing, and so do the two reads
  of the decision.
\<close>

definition search_step :: "'w env \<Rightarrow> pystr \<Rightarrow> (pystr \<rightharpoonup> pystr) \<Rightarrow> pystr \<Rightarrow> bool \<Rightarrow> 'w state \<Rightarrow>
    (exc + pystr \<times> chat_turn_result) \<times> 'w state" where
  "search_step E user_message character system_prompt enable_search s =
     (if \<not> enable_search then (Inr (system_prompt, initial_result), s)
      else
        (case character (ustr ''name'') of
           None \<Rightarrow> (Inl (KeyError (ustr ''name'')), s)
         | Some character_name \<Rightarrow>
             (case should_search E user_message character_name s of
                (Inl e, s1) \<Rightarrow> (Inl e, s1)
              | (Inr decision, s1) \<Rightarrow>
                  (case py_getitem decision (ustr ''need_search'') of
                     Inl e \<Rightarrow> (Inl e, s1)
                   | Inr need \<Rightarrow>
                       if \<not> py_truthy need then (Inr (system_prompt, initial_result), s1)
                       else
                         (case py_getitem decision (ustr ''search_query'') of
                            Inl e \<Rightarrow> (Inl e, s1)
                          | Inr v \<Rightarrow>
                              (case py_hashable v of
                                 Inl e \<Rightarrow> (Inl e, s1)
                               | Inr sq \<Rightarrow>
                                   (case lookup_or_search E sq s1 of
                                      (Inl e, s2) \<Rightarrow> (Inl e, s2)
                                    | (Inr (sm, rs), s2) \<Rightarrow>
                                        (Inr (system_prompt @ newline @ newline @
                                                enhance_context user_message character_name sm,
                                              initial_result
                                                \<lparr>search_performed := True, search_query := sq,
                                                 search_summary := sm, search_results := rs\<rparr>),
                                         s2))))))))"

definition build_messages :: "pystr \<Rightarrow> message list \<Rightarrow> pystr \<Rightarrow> message list" where
  \<comment> \<open>lines 400-404\<close>
  "build_messages system_prompt conversation_history user_message =
     \<lparr>role = ustr ''system'', content = system_prompt\<rparr> # conversation_history @
     [\<lparr>role = ustr ''user'', content = user_message\<rparr>]"

definition final_request :: "pystr \<Rightarrow> message list \<Rightarrow> real \<Rightarrow> int \<Rightarrow> chat_request" where
  \<comment> \<open>lines 408-413\<close>
  "final_request mdl msgs temp limit =
     \<lparr>model = mdl, messages = msgs, temperature = temp, response_format = None,
      max_tokens = Some limit\<rparr>"

text \<open>
  Lines 408-422. The cost is the product and sum of line 421 over the reals: the rounding
  of Python's floats is not modelled. A missing usage block raises at line 416, after the
  response was stored; the handler then overwrites the response, so the block is modelled as
  changing nothing when it raises.
\<close>

definition generate_try :: "'w env \<Rightarrow> chat_request \<Rightarrow> chat_turn_result \<Rightarrow> 'w state \<Rightarrow>
    (exc + chat_turn_result) \<times> 'w state" where
  "generate_try E req result s =
     (case call_chat E req s of
        (Inl e, s') \<Rightarrow> (Inl e, s')
      | (Inr resp, s') \<Rightarrow>
          (case first_content resp of
             Inl e \<Rightarrow> (Inl e, s')
           | Inr c \<Rightarrow>
               (case usage resp of
                  None \<Rightarrow>
                    (Inl (AttributeError
                            (quoted ''NoneType'' @ ustr '' object has no attribute '' @
                             quoted ''total_tokens'')), s')
                | Some u \<Rightarrow>
                    (Inr (result
                            \<lparr>response := c,
                             tokens_used := total_tokens u,
                             cost := real_of_int (prompt_tokens u) * 0.000005 +
                                     real_of_int (completion_tokens u) * 0.000015\<rparr>),
                     s'))))"

definition generate :: "'w env \<Rightarrow> chat_request \<Rightarrow> chat_turn_result \<Rightarrow> 'w state \<Rightarrow>
    (exc + chat_turn_result) \<times> 'w state" where
  \<comment> \<open>lines 407-428\<close>
  "generate E req result s =
     (case generate_try E req result s of
        (Inl e, s') \<Rightarrow> (Inr (result\<lparr>response := Some (apology_prefix @ exc_str e)\<rparr>), s')
      | (Inr r, s') \<Rightarrow> (Inr r, s'))"

definition chat_with_mcp :: "'w env \<Rightarrow> pystr \<Rightarrow> (pystr \<rightharpoonup> pystr) \<Rightarrow> pystr \<Rightarrow> message list \<Rightarrow> bool \<Rightarrow>
    pystr \<Rightarrow> real \<Rightarrow> int \<Rightarrow> 'w state \<Rightarrow> (exc + chat_turn_result) \<times> 'w state" where
  "chat_with_mcp E user_message character system_prompt conversation_history enable_search
       mdl temp limit s =
     (case search_step E user_message character system_prompt enable_search s of
        (Inl e, s1) \<Rightarrow> (Inl e, s1)
      | (Inr (prompt, result), s1) \<Rightarrow>
          generate E
            (final_request mdl (build_messages prompt conversation_history user_message) temp limit)
            result s1)"

section \<open>Observing a run\<close>

text \<open>The model calls and the method entries among the calls of a run.\<close>

fun is_chat_call :: "event \<Rightarrow> bool" where
  "is_chat_call (EvChat req) = True"
| "is_chat_call (EvDdgs ps a) = False"
| "is_chat_call (EvGet u) = False"
| "is_chat_call (EvSearchWeb q n) = False"
| "is_chat_call (EvSummarize q rs) = False"

definition chat_calls :: "event list \<Rightarrow> event list" where
  "chat_calls evs = filter is_chat_call evs"

fun is_method_call :: "event \<Rightarrow> bool" where
  "is_method_call (EvSearchWeb q n) = True"
| "is_method_call (EvSummarize q rs) = True"
| "is_method_call (EvChat req) = False"
| "is_method_call (EvDdgs ps a) = False"
| "is_method_call (EvGet u) = False"

definition method_calls :: "event list \<Rightarrow> event list" where
  "method_calls evs = filter is_method_call evs"

text \<open>
  What the reply of the final call alone accounts for: its total tokens and the cost of
  line 421 when the reply has a first choice and a usage block, zero otherwise.
\<close>

definition usage_of_reply :: "exc + completion \<Rightarrow> int \<times> real" where
  "usage_of_reply r =
     (case r of
        Inl e \<Rightarrow> (0, 0)
      | Inr resp \<Rightarrow>
          (case choices resp of
             [] \<Rightarrow> (0, 0)
           | c # cs \<Rightarrow>
               (case usage resp of
                  None \<Rightarrow> (0, 0)
                | Some u \<Rightarrow>
                    (total_tokens u,
                     real_of_int (prompt_tokens u) * 0.000005 +
                     real_of_int (completion_tokens u) * 0.000015))))"

text \<open>The invariant of the cache: no entry holds an empty result list.\<close>

definition cache_inv :: "'w state \<Rightarrow> bool" where
  "cache_inv s \<longleftrightarrow> (\<forall>entry \<in> ran (search_cache s). results entry \<noteq> [])"

text \<open>
  A step that leaves the cache and the method entries as they were: what the collaborator
  calls and the methods without a cache do.
\<close>

definition quiet :: "'w state \<Rightarrow> 'w state \<Rightarrow> bool" where
  "quiet s s' \<longleftrightarrow>
     search_cache s' = search_cache s \<and> method_calls (calls s') = method_calls (calls s)"

text \<open>
  The calls of a run to the search backend, each with its answer, and what the loops of
  lines 147-188 read of a list of answers. A hit is readable when line 172 can slice its
  title. Of one answer the loop reads the hits before the first that is not readable, none
  when the backend raised; an answer is complete when it is not empty and every hit is
  readable, and after a complete answer no later one is read (line 182).
\<close>

fun backend_calls :: "event list \<Rightarrow> (ddgs_params \<times> (exc + hit list)) list" where
  "backend_calls [] = []"
| "backend_calls (EvDdgs ps a # evs) = (ps, a) # backend_calls evs"
| "backend_calls (EvChat req # evs) = backend_calls evs"
| "backend_calls (EvGet u # evs) = backend_calls evs"
| "backend_calls (EvSearchWeb q n # evs) = backend_calls evs"
| "backend_calls (EvSummarize q rs # evs) = backend_calls evs"

definition readable :: "hit \<Rightarrow> bool" where
  "readable r \<longleftrightarrow> unsliceable (hit_title_value r) = None"

fun read_prefix :: "exc + hit list \<Rightarrow> hit list" where
  "read_prefix (Inl e) = []"
| "read_prefix (Inr hits) = takeWhile readable hits"

fun complete :: "exc + hit list \<Rightarrow> bool" where
  "complete (Inl e) = False"
| "complete (Inr hits) = (hits \<noteq> [] \<and> list_all readable hits)"

fun hits_read :: "(exc + hit list) list \<Rightarrow> hit list" where
  "hits_read [] = []"
| "hits_read (a # answers) =
     (if complete a then read_prefix a else read_prefix a @ hits_read answers)"

definition entry_fields :: "search_result \<Rightarrow> pystr \<times> pystr \<times> pystr" where
  "entry_fields r = (url r, title r, snippet r)"

definition hit_fields :: "hit \<Rightarrow> pystr \<times> pystr \<times> pystr" where
  "hit_fields r = (hit_url r, atom_str (hit_title_value r), hit_snippet r)"

text \<open>
  The decision of a turn with search enabled, read as lines 348-355 read it: the query the
  turn will search for and the state after the decision call, or \<open>None\<close> when the turn does
  not search (the character has no name, the decision lacks a key, \<open>need_search\<close> is falsy
  or the query is not hashable).
\<close>

definition decided_query :: "'w env \<Rightarrow> pystr \<Rightarrow> (pystr \<rightharpoonup> pystr) \<Rightarrow> 'w state \<Rightarrow> (atom \<times> 'w state) option" where
  "decided_query E user_message character s =
     (case character (ustr ''name'') of
        None \<Rightarrow> None
      | Some character_name \<Rightarrow>
          (case should_search E user_message character_name s of
             (Inl e, s1) \<Rightarrow> None
           | (Inr decision, s1) \<Rightarrow>
               (case py_getitem decision (ustr ''need_search'') of
                  Inl e \<Rightarrow> None
                | Inr need \<Rightarrow>
                    if py_truthy need then
                      (case py_getitem decision (ustr ''search_query'') of
                         Inl e \<Rightarrow> None
                       | Inr v \<Rightarrow>
                           (case py_hashable v of Inl e \<Rightarrow> None | Inr q \<Rightarrow> Some (q, s1)))
                    else None)))"

section \<open>Scenarios\<close>

text \<open>
  Concrete collaborators for the examples. The world is a script: the replies the model
  will give and the answers the search backend will give, each consumed in order; past its
  end the model call raises a connection error and the backend raises. The page fetch and
  the JSON decoder are fixed functions.
\<close>

type_synonym script = "(exc + completion) list \<times> (exc + hit list) list"

definition scripted :: "(pystr \<Rightarrow> exc + pyval) \<Rightarrow> (pystr \<Rightarrow> exc + pystr) \<Rightarrow> script env" where
  "scripted parse page =
     \<lparr>chat_completions_create =
        (\<lambda>req w. case fst w of
                    [] \<Rightarrow> (Inl (OtherError (ustr ''Connection error.'')), w)
                  | r # rest \<Rightarrow> (r, (rest, snd w))),
      json_loads = parse,
      ddgs_text =
        (\<lambda>ps w. case snd w of
                   [] \<Rightarrow> (Inl (OtherError (ustr ''No results found.'')), w)
                 | r # rest \<Rightarrow> (r, (fst w, rest))),
      page_text = (\<lambda>u w. (page u, w))\<rparr>"

definition start :: "script \<Rightarrow> script state" where
  \<comment> \<open>a fresh manager: the empty cache of line 302\<close>
  "start w = \<lparr>search_cache = Map.empty, world = w, calls = []\<rparr>"

definition reply :: "pystr \<Rightarrow> exc + completion" where
  "reply c =
     Inr \<lparr>choices = [Some c],
          usage = Some \<lparr>prompt_tokens = 100, completion_tokens = 50, total_tokens = 150\<rparr>\<rparr>"

definition decision_text :: pystr where
  \<open>decision_text = ustr ''{"need_search": true, "search_query": "taishan"}''\<close>

definition taishan_decision :: pyval where
  "taishan_decision =
     PDict [(ustr ''need_search'', PBool True), (ustr ''search_query'', PStr (ustr ''taishan''))]"

definition parse_demo :: "pystr \<Rightarrow> exc + pyval" where
  \<comment> \<open>\<^verbatim>\<open>json.loads\<close> on the texts the examples use; any other text is rejected\<close>
  "parse_demo t =
     (if t = decision_text then Inr taishan_decision
      else if t = ustr ''{}'' then Inr (PDict [])
      else Inl (OtherError (ustr ''Expecting value: line 1 column 1 (char 0)'')))"

definition page_demo :: "pystr \<Rightarrow> exc + pystr" where
  "page_demo u =
     (if u = ustr ''http://a'' then Inr (ustr ''abc'')
      else Inl (OtherError (ustr ''Invalid URL'')))"

definition demo :: "script env" where
  "demo = scripted parse_demo page_demo"

definition wukong :: "pystr \<rightharpoonup> pystr" where
  "wukong = [ustr ''name'' \<mapsto> ustr ''Wukong'']"

definition hit_a :: hit where
  "hit_a = Hit (Some (ustr ''http://a'')) (Some (AStr (ustr ''A''))) (Some (ustr ''about a''))"

definition hit_bare :: hit where
  \<comment> \<open>a hit without href\<close>
  "hit_bare = Hit None (Some (AStr (ustr ''B''))) (Some (ustr ''about b''))"

definition hit_untitled :: hit where
  \<comment> \<open>a hit whose title is \<^verbatim>\<open>None\<close>\<close>
  "hit_untitled = Hit (Some (ustr ''http://n'')) (Some ANone) (Some (ustr ''about n''))"

definition hit_c :: hit where
  "hit_c = Hit (Some (ustr ''http://c'')) (Some (AStr (ustr ''C''))) (Some (ustr ''about c''))"

definition result_c :: search_result where
  \<comment> \<open>the page of \<open>hit_c\<close> cannot be fetched: the content is the snippet\<close>
  "result_c =
     \<lparr>title = ustr ''C'', snippet = ustr ''about c'', full_content = ustr ''about c'',
      url = ustr ''http://c''\<rparr>"

definition result_a :: search_result where
  "result_a =
     \<lparr>title = ustr ''A'', snippet = ustr ''about a'', full_content = ustr ''abc'',
      url = ustr ''http://a''\<rparr>"

text \<open>
  A turn of the examples, and two scripts for two turns that decide the same query: in the
  first the search finds a page at once; in the second the three strategies of the first
  turn find nothing and the search of the second turn finds a page.
\<close>

definition taishan :: atom where
  "taishan = AStr (ustr ''taishan'')"

definition turn :: "script state \<Rightarrow> (exc + chat_turn_result) \<times> script state" where
  "turn s =
     chat_with_mcp demo (ustr ''hi'') wukong (ustr ''sys'') [] True (ustr ''gpt-4o-ca'') 0.8 2000 s"

definition found_script :: script where
  "found_script =
     ([reply decision_text, reply (ustr ''a summary''), reply (ustr ''hello''),
       reply decision_text, reply (ustr ''hello again'')],
      [Inr [hit_a]])"

definition empty_then_found_script :: script where
  "empty_then_found_script =
     ([reply decision_text, reply (ustr ''hello''),
       reply decision_text, reply (ustr ''a summary''), reply (ustr ''hello again'')],
      [Inr [], Inr [], Inr [], Inr [hit_a]])"

section \<open>Basic facts\<close>

lemmas turn_defs = taishan_def turn_def found_script_def empty_then_found_script_def

lemmas model_defs =
  call_chat_def call_ddgs_def call_page_def first_content_def
  should_search_try_def should_search_def fetch_webpage_content_try_def
  fetch_webpage_content_def search_params_def hit_url_def hit_title_value_def hit_snippet_def
  try_strategy_def search_web_try_def
  search_web_def search_strategies_def summarize_try_def summarize_search_results_def
  lookup_or_search_def search_step_def generate_try_def generate_def chat_with_mcp_def

lemmas demo_defs =
  demo_def scripted_def start_def reply_def parse_demo_def page_demo_def wukong_def hit_a_def
  hit_bare_def hit_untitled_def hit_c_def result_c_def decision_text_def taishan_decision_def
  result_a_def

lemmas text_defs =
  clean_lines_def truncate_text_def py_slice_to_def py_strip_def py_isspace_def newline_def
  ellipsis_def ustr_def

lemma py_slice_to_nonneg: "0 \<le> n \<Longrightarrow> py_slice_to xs n = take (nat n) xs"
  by (simp add: py_slice_to_def)

lemma length_ellipsis: "length ellipsis = 3"
  by (simp add: ellipsis_def ustr_def)

lemma clean_abc: "clean_lines (ustr ''abc'') = ustr ''abc''"
  by (simp add: text_defs)

lemma search_step_result:
  assumes "search_step E um character sp enable s = (Inr (prompt, r0), s1)"
  shows "tokens_used r0 = 0 \<and> cost r0 = 0"
  using assms
  by (auto simp: search_step_def initial_result_def
      split: if_splits option.splits prod.splits sum.splits)

lemma generate_returns: "\<exists>r. fst (generate E req r0 s) = Inr r"
  by (auto simp: generate_def split: prod.splits sum.splits)

lemma generate_usage:
  assumes "fst (generate E req r0 s) = Inr r" and "tokens_used r0 = 0" and "cost r0 = 0"
  shows "(tokens_used r, cost r) = usage_of_reply (fst (chat_completions_create E req (world s)))"
  using assms
  by (auto simp: generate_def generate_try_def call_chat_def first_content_def usage_of_reply_def
      split: prod.splits sum.splits option.splits list.splits)

lemma should_search_try_fails_iff:
  "fst (should_search_try E um cn s) = Inl e \<longleftrightarrow>
     (case fst (chat_completions_create E (decision_request um cn) (world s)) of
        Inl e' \<Rightarrow> e' = e
      | Inr resp \<Rightarrow>
          (case choices resp of
             [] \<Rightarrow> e = IndexError (ustr ''list index out of range'')
           | None # cs \<Rightarrow>
               e = TypeError (ustr ''the JSON object must be str, bytes or bytearray, not NoneType'')
           | Some c # cs \<Rightarrow> json_loads E c = Inl e))"
  by (auto simp: should_search_try_def call_chat_def first_content_def
      split: prod.splits sum.splits option.splits list.splits)

lemma searching_step:
  "\<exists>prompt r0 s1.
     search_step demo (ustr ''hi'') wukong (ustr ''sys'') True
       (start ([reply decision_text, reply (ustr ''a summary'')], [Inr [hit_a]])) = (Inr (prompt, r0), s1) \<and>
     search_performed r0 \<and> world s1 = ([], [])"
  by (simp add: model_defs demo_defs ustr_def)

subsection \<open>What each method does to the cache and to the calls\<close>

lemma quiet_refl: "quiet s s"
  by (simp add: quiet_def)

lemma quiet_trans: "quiet s s' \<Longrightarrow> quiet s' s'' \<Longrightarrow> quiet s s''"
  by (simp add: quiet_def)

lemma call_chat_quiet: "call_chat E req s = (r, s') \<Longrightarrow> quiet s s'"
  by (auto simp: call_chat_def quiet_def method_calls_def split: prod.splits)

lemma call_ddgs_quiet: "call_ddgs E ps s = (r, s') \<Longrightarrow> quiet s s'"
  by (auto simp: call_ddgs_def quiet_def method_calls_def split: prod.splits)

lemma call_page_quiet: "call_page E u s = (r, s') \<Longrightarrow> quiet s s'"
  by (auto simp: call_page_def quiet_def method_calls_def split: prod.splits)

lemma should_search_try_quiet: "should_search_try E um cn s = (r, s') \<Longrightarrow> quiet s s'"
  by (auto simp: should_search_try_def split: prod.splits sum.splits option.splits
      dest: call_chat_quiet)

lemma should_search_quiet: "should_search E um cn s = (r, s') \<Longrightarrow> quiet s s'"
  by (auto simp: should_search_def split: prod.splits sum.splits dest: should_search_try_quiet)

lemma should_search_returns: "\<exists>d. fst (should_search E um cn s) = Inr d"
  by (auto simp: should_search_def split: prod.splits sum.splits)

lemma fetch_webpage_content_quiet: "fetch_webpage_content E u n s = (r, s') \<Longrightarrow> quiet s s'"
  by (auto simp: fetch_webpage_content_def fetch_webpage_content_try_def
      split: prod.splits sum.splits dest: call_page_quiet)

lemma fetch_webpage_content_returns: "\<exists>t. fst (fetch_webpage_content E u n s) = Inr t"
  by (auto simp: fetch_webpage_content_def split: prod.splits sum.splits)

lemma backend_calls_append: "backend_calls (xs @ ys) = backend_calls xs @ backend_calls ys"
  by (induction xs rule: backend_calls.induct) simp_all

lemma call_page_backend:
  "call_page E u s = (r, s') \<Longrightarrow> backend_calls (calls s') = backend_calls (calls s)"
  by (auto simp: call_page_def backend_calls_append split: prod.splits)

lemma fetch_webpage_content_backend:
  "fetch_webpage_content E u n s = (r, s') \<Longrightarrow> backend_calls (calls s') = backend_calls (calls s)"
  by (auto simp: fetch_webpage_content_def fetch_webpage_content_try_def
      split: prod.splits sum.splits dest: call_page_backend)

lemma call_ddgs_backend:
  "call_ddgs E ps s = (a, s') \<Longrightarrow>
     backend_calls (calls s') = backend_calls (calls s) @ [(ps, a)]"
  by (auto simp: call_ddgs_def backend_calls_append split: prod.splits)

lemma fetch_hits_effect:
  "fetch_hits E hits rs s = (x, rs', s') \<Longrightarrow>
     quiet s s' \<and> backend_calls (calls s') = backend_calls (calls s) \<and>
     (x = None \<longleftrightarrow> list_all readable hits) \<and>
     (\<exists>new. rs' = rs @ new \<and> map entry_fields new = map hit_fields (takeWhile readable hits))"
proof (induction hits arbitrary: rs s)
  case Nil
  then show ?case by (simp add: quiet_refl)
next
  case (Cons r hits)
  show ?case
  proof (cases "readable r")
    case False
    then obtain e where u: "unsliceable (hit_title_value r) = Some e"
      by (auto simp: readable_def)
    with Cons.prems have "x = Some e" "rs' = rs" "s' = s"
      by simp_all
    with False show ?thesis
      by (simp add: quiet_refl)
  next
    case True
    then have u: "unsliceable (hit_title_value r) = None"
      by (simp add: readable_def)
    obtain t s1 where f: "fetch_webpage_content E (hit_url r) 3000 s = (Inr t, s1)"
      using fetch_webpage_content_returns [of E "hit_url r" 3000 s]
      by (cases "fetch_webpage_content E (hit_url r) 3000 s") auto
    define new1 where "new1 = \<lparr>title = atom_str (hit_title_value r), snippet = hit_snippet r,
        full_content = (if t \<noteq> [] then t else hit_snippet r), url = hit_url r\<rparr>"
    have rec: "fetch_hits E hits (rs @ [new1]) s1 = (x, rs', s')"
      using Cons.prems u f by (simp add: new1_def)
    from Cons.IH [OF rec] obtain new where
      ih: "quiet s1 s'" "backend_calls (calls s') = backend_calls (calls s1)"
        "x = None \<longleftrightarrow> list_all readable hits"
        "rs' = (rs @ [new1]) @ new"
        "map entry_fields new = map hit_fields (takeWhile readable hits)"
      by blast
    have q: "quiet s s'"
      using fetch_webpage_content_quiet [OF f] ih(1) by (rule quiet_trans)
    have b: "backend_calls (calls s') = backend_calls (calls s)"
      using fetch_webpage_content_backend [OF f] ih(2) by simp
    have n: "entry_fields new1 = hit_fields r"
      by (simp add: new1_def entry_fields_def hit_fields_def)
    have a: "rs' = rs @ (new1 # new)"
      using ih(4) by simp
    have m: "map entry_fields (new1 # new) = map hit_fields (takeWhile readable (r # hits))"
      using True n ih(5) by simp
    show ?thesis
      using q b ih(3) True a m by auto
  qed
qed

lemma try_strategy_effect:
  assumes "try_strategy E q n st rs s = (x, rs', s')"
  shows "quiet s s' \<and>
     (\<exists>a new. backend_calls (calls s') = backend_calls (calls s) @ [(search_params q n st, a)] \<and>
        (x = Inr True \<longleftrightarrow> complete a) \<and> rs' = rs @ new \<and>
        map entry_fields new = map hit_fields (read_prefix a))"
proof -
  obtain a s0 where c: "call_ddgs E (search_params q n st) s = (a, s0)"
    by (cases "call_ddgs E (search_params q n st) s") auto
  have q0: "quiet s s0"
    using call_ddgs_quiet [OF c] .
  have b0: "backend_calls (calls s0) = backend_calls (calls s) @ [(search_params q n st, a)]"
    using call_ddgs_backend [OF c] .
  show ?thesis
  proof (cases a)
    case (Inl e)
    with c assms have "x = Inl e" "rs' = rs" "s' = s0"
      by (simp_all add: try_strategy_def)
    with q0 b0 Inl show ?thesis
      by auto
  next
    case (Inr hits)
    show ?thesis
    proof (cases "hits = []")
      case True
      with c Inr assms have "x = Inr False" "rs' = rs" "s' = s0"
        by (simp_all add: try_strategy_def)
      with q0 b0 Inr True show ?thesis
        by auto
    next
      case False
      obtain y rs1 s1 where fh: "fetch_hits E hits rs s0 = (y, rs1, s1)"
        by (cases "fetch_hits E hits rs s0") auto
      from fetch_hits_effect [OF fh] obtain new where
        e: "quiet s0 s1" "backend_calls (calls s1) = backend_calls (calls s0)"
          "y = None \<longleftrightarrow> list_all readable hits" "rs1 = rs @ new"
          "map entry_fields new = map hit_fields (takeWhile readable hits)"
        by blast
      have r: "rs' = rs1" "s' = s1" "x = Inr True \<longleftrightarrow> y = None"
        using assms c Inr False fh by (auto simp: try_strategy_def split: option.splits)
      have q: "quiet s s'"
        using q0 e(1) r(2) quiet_trans by blast
      have k: "x = Inr True \<longleftrightarrow> complete a"
        using r(3) e(3) Inr False by simp
      have b: "backend_calls (calls s') = backend_calls (calls s) @ [(search_params q n st, a)]"
        using b0 e(2) r(2) by simp
      have m: "map entry_fields new = map hit_fields (read_prefix a)"
        using e(5) Inr by simp
      show ?thesis
        using q b k r(1) e(4) m by blast
    qed
  qed
qed

lemma search_loop_effect:
  "search_loop E q n sts rs s = (rs', s') \<Longrightarrow>
     quiet s s' \<and>
     (\<exists>bcs new. backend_calls (calls s') = backend_calls (calls s) @ bcs \<and>
        map fst bcs = take (length bcs) (map (search_params q n) sts) \<and>
        rs' = rs @ new \<and> map entry_fields new = map hit_fields (hits_read (map snd bcs)))"
proof (induction sts arbitrary: rs s)
  case Nil
  then have "rs' = rs @ []" "s' = s"
    by simp_all
  then show ?case
    by (intro conjI exI [of _ "[]"]) (simp_all add: quiet_refl)
next
  case (Cons st sts)
  obtain x rs1 s1 where t: "try_strategy E q n st rs s = (x, rs1, s1)"
    by (cases "try_strategy E q n st rs s") auto
  from try_strategy_effect [OF t] obtain a new1 where
    e: "quiet s s1" "backend_calls (calls s1) = backend_calls (calls s) @ [(search_params q n st, a)]"
      "x = Inr True \<longleftrightarrow> complete a" "rs1 = rs @ new1"
      "map entry_fields new1 = map hit_fields (read_prefix a)"
    by blast
  show ?case
  proof (cases "x = Inr True")
    case True
    with Cons.prems t have r: "rs' = rs1" "s' = s1"
      by auto
    have c: "complete a"
      using True e(3) by simp
    have "backend_calls (calls s') = backend_calls (calls s) @ [(search_params q n st, a)] \<and>
        map fst [(search_params q n st, a)] =
          take (length [(search_params q n st, a)]) (map (search_params q n) (st # sts)) \<and>
        rs' = rs @ new1 \<and>
        map entry_fields new1 = map hit_fields (hits_read (map snd [(search_params q n st, a)]))"
      using r e c by simp
    then show ?thesis
      using e(1) r(2) by blast
  next
    case False
    then have nc: "\<not> complete a"
      using e(3) by simp
    have "search_loop E q n sts rs1 s1 = (rs', s')"
      using Cons.prems t False by (cases x) auto
    from Cons.IH [OF this] obtain bcs new where
      ih: "quiet s1 s'" "backend_calls (calls s') = backend_calls (calls s1) @ bcs"
        "map fst bcs = take (length bcs) (map (search_params q n) sts)"
        "rs' = rs1 @ new" "map entry_fields new = map hit_fields (hits_read (map snd bcs))"
      by blast
    have q: "quiet s s'"
      using e(1) ih(1) by (rule quiet_trans)
    have "backend_calls (calls s') = backend_calls (calls s) @ ((search_params q n st, a) # bcs) \<and>
        map fst ((search_params q n st, a) # bcs) =
          take (length ((search_params q n st, a) # bcs)) (map (search_params q n) (st # sts)) \<and>
        rs' = rs @ (new1 @ new) \<and>
        map entry_fields (new1 @ new) =
          map hit_fields (hits_read (map snd ((search_params q n st, a) # bcs)))"
      using e ih nc by simp
    then show ?thesis
      using q by blast
  qed
qed

lemma search_web_effect:
  assumes "search_web E q n s = (x, s')"
  shows "\<exists>rs bcs. x = Inr rs \<and>
      backend_calls (calls s') = backend_calls (calls s) @ bcs \<and>
      map fst bcs = take (length bcs) (map (search_params q n) search_strategies) \<and>
      map entry_fields rs = map hit_fields (hits_read (map snd bcs)) \<and>
      search_cache s' = search_cache s \<and>
      method_calls (calls s') = method_calls (calls s) @ [EvSearchWeb q n]"
proof -
  obtain rs s1 where l: "search_loop E q n search_strategies []
      (s\<lparr>calls := calls s @ [EvSearchWeb q n]\<rparr>) = (rs, s1)"
    by (cases "search_loop E q n search_strategies [] (s\<lparr>calls := calls s @ [EvSearchWeb q n]\<rparr>)") auto
  have x: "x = Inr rs" "s' = s1"
    using assms l by (auto simp: search_web_def search_web_try_def)
  from search_loop_effect [OF l] obtain bcs where
    e: "quiet (s\<lparr>calls := calls s @ [EvSearchWeb q n]\<rparr>) s1"
      "backend_calls (calls s1) =
         backend_calls (calls (s\<lparr>calls := calls s @ [EvSearchWeb q n]\<rparr>)) @ bcs"
      "map fst bcs = take (length bcs) (map (search_params q n) search_strategies)"
      "map entry_fields rs = map hit_fields (hits_read (map snd bcs))"
    by auto
  have b: "backend_calls (calls s') = backend_calls (calls s) @ bcs"
    using e(2) x(2) by (simp add: backend_calls_append)
  have c: "search_cache s' = search_cache s"
    "method_calls (calls s') = method_calls (calls s) @ [EvSearchWeb q n]"
    using e(1) x(2) by (simp_all add: quiet_def method_calls_def)
  show ?thesis
    using x(1) b e(3,4) c by blast
qed

lemma summarize_effect:
  assumes "summarize_search_results E q rs s = (x, s')"
  shows "(\<exists>sm. x = Inr sm) \<and> search_cache s' = search_cache s \<and>
     method_calls (calls s') = method_calls (calls s) @ [EvSummarize q rs]"
proof (cases "rs = []")
  case True
  with assms show ?thesis
    by (auto simp: summarize_search_results_def method_calls_def)
next
  case False
  obtain y s1 where t: "summarize_try E q rs (s\<lparr>calls := calls s @ [EvSummarize q rs]\<rparr>) = (y, s1)"
    by (cases "summarize_try E q rs (s\<lparr>calls := calls s @ [EvSummarize q rs]\<rparr>)") auto
  have "quiet (s\<lparr>calls := calls s @ [EvSummarize q rs]\<rparr>) s1"
    using t by (auto simp: summarize_try_def split: prod.splits sum.splits option.splits
        dest: call_chat_quiet)
  then have q: "search_cache s1 = search_cache s"
    "method_calls (calls s1) = method_calls (calls s) @ [EvSummarize q rs]"
    by (simp_all add: quiet_def method_calls_def)
  have "s' = s1 \<and> (\<exists>sm. x = Inr sm)"
    using assms t False by (cases y) (auto simp: summarize_search_results_def Let_def)
  with q show ?thesis
    by simp
qed

lemma generate_effect:
  assumes "generate E req r0 s = (x, s')"
  shows "quiet s s' \<and>
     (\<exists>r. x = Inr r \<and> search_performed r = search_performed r0 \<and>
        search_query r = search_query r0 \<and> search_summary r = search_summary r0 \<and>
        search_results r = search_results r0)"
proof -
  obtain y s1 where t: "generate_try E req r0 s = (y, s1)"
    by (cases "generate_try E req r0 s") auto
  have q: "quiet s s1"
    using t by (auto simp: generate_try_def split: prod.splits sum.splits option.splits
        dest: call_chat_quiet)
  have k: "case y of Inl e \<Rightarrow> True | Inr r \<Rightarrow> search_performed r = search_performed r0 \<and>
        search_query r = search_query r0 \<and> search_summary r = search_summary r0 \<and>
        search_results r = search_results r0"
    using t by (auto simp: generate_try_def split: prod.splits sum.splits option.splits)
  show ?thesis
    using assms t q k by (cases y) (auto simp: generate_def)
qed

subsection \<open>The cache across a turn\<close>

lemma cache_inv_quiet: "quiet s s' \<Longrightarrow> cache_inv s \<Longrightarrow> cache_inv s'"
  by (simp add: quiet_def cache_inv_def)

lemma lookup_or_search_hit:
  "search_cache s (ckey_of q) = Some entry \<Longrightarrow>
     lookup_or_search E q s = (Inr (summary entry, results entry), s)"
  by (simp add: lookup_or_search_def)

lemma lookup_or_search_miss:
  assumes "search_cache s (ckey_of q) = None"
    and "lookup_or_search E q s = (x, s')"
  shows "\<exists>rs s1. search_web E q 8 s = (Inr rs, s1) \<and>
     (if rs = []
      then x = Inr (no_information_marker, []) \<and> search_cache s' = search_cache s \<and>
           method_calls (calls s') = method_calls (calls s) @ [EvSearchWeb q 8]
      else \<exists>sm. x = Inr (sm, rs) \<and>
           search_cache s' = (search_cache s)(ckey_of q \<mapsto> \<lparr>summary = sm, results = rs\<rparr>) \<and>
           method_calls (calls s') =
             method_calls (calls s) @ [EvSearchWeb q 8, EvSummarize q rs])"
proof -
  obtain y s1 where w: "search_web E q 8 s = (y, s1)"
    by (cases "search_web E q 8 s") auto
  from search_web_effect [OF w] obtain rs where
    y: "y = Inr rs" and c1: "search_cache s1 = search_cache s"
    and m1: "method_calls (calls s1) = method_calls (calls s) @ [EvSearchWeb q 8]"
    by blast
  show ?thesis
  proof (cases "rs = []")
    case True
    have "x = Inr (no_information_marker, []) \<and> s' = s1"
      using assms w y True by (auto simp: lookup_or_search_def)
    with w y True c1 m1 show ?thesis
      by simp
  next
    case False
    obtain z s2 where sm: "summarize_search_results E q rs s1 = (z, s2)"
      by (cases "summarize_search_results E q rs s1") auto
    from summarize_effect [OF sm] obtain t where
      z: "z = Inr t" and c2: "search_cache s2 = search_cache s1"
      and m2: "method_calls (calls s2) = method_calls (calls s1) @ [EvSummarize q rs]"
      by blast
    have "x = Inr (t, rs) \<and>
        s' = s2\<lparr>search_cache := (search_cache s2)(ckey_of q \<mapsto> \<lparr>summary = t, results = rs\<rparr>)\<rparr>"
      using assms w y False sm z by (auto simp: lookup_or_search_def)
    with w y False c1 c2 m1 m2 show ?thesis
      by simp
  qed
qed

lemma lookup_or_search_inv:
  assumes "cache_inv s" and "lookup_or_search E q s = (x, s')"
  shows "cache_inv s'"
proof (cases "search_cache s (ckey_of q)")
  case (Some entry)
  with assms lookup_or_search_hit [OF Some, of E] show ?thesis
    by simp
next
  case None
  from lookup_or_search_miss [OF None assms(2)] obtain rs s1 where
    m: "if rs = []
        then x = Inr (no_information_marker, []) \<and> search_cache s' = search_cache s \<and>
             method_calls (calls s') = method_calls (calls s) @ [EvSearchWeb q 8]
        else \<exists>sm. x = Inr (sm, rs) \<and>
             search_cache s' = (search_cache s)(ckey_of q \<mapsto> \<lparr>summary = sm, results = rs\<rparr>) \<and>
             method_calls (calls s') =
               method_calls (calls s) @ [EvSearchWeb q 8, EvSummarize q rs]"
    by blast
  show ?thesis
  proof (cases "rs = []")
    case True
    with m have "search_cache s' = search_cache s"
      by simp
    with assms(1) show ?thesis
      by (simp add: cache_inv_def)
  next
    case False
    with m obtain sm where
      c: "search_cache s' = (search_cache s)(ckey_of q \<mapsto> \<lparr>summary = sm, results = rs\<rparr>)"
      by auto
    have "ran (search_cache s') = insert \<lparr>summary = sm, results = rs\<rparr> (ran (search_cache s))"
      using None by (simp add: c)
    with assms(1) False show ?thesis
      by (simp add: cache_inv_def)
  qed
qed

lemma search_step_inv:
  assumes "cache_inv s" and "search_step E um ch sp en s = (x, s')"
  shows "cache_inv s'"
proof (cases "en \<and> decided_query E um ch s \<noteq> None")
  case False
  have "quiet s s'"
    using assms(2) False
    by (auto simp: search_step_def decided_query_def quiet_refl
        split: if_splits option.splits prod.splits sum.splits dest: should_search_quiet)
  then show ?thesis
    using assms(1) by (rule cache_inv_quiet)
next
  case True
  then obtain q s1 where d: "decided_query E um ch s = Some (q, s1)"
    by auto
  have q1: "quiet s s1"
    using d by (auto simp: decided_query_def
        split: if_splits option.splits prod.splits sum.splits dest: should_search_quiet)
  obtain y s2 where l: "lookup_or_search E q s1 = (y, s2)"
    by (cases "lookup_or_search E q s1") auto
  have "s' = s2"
    using assms(2) True d l
    by (auto simp: search_step_def decided_query_def
        split: if_splits option.splits prod.splits sum.splits)
  with lookup_or_search_inv [OF cache_inv_quiet [OF q1 assms(1)] l] show ?thesis
    by simp
qed

lemma chat_with_mcp_inv:
  assumes "cache_inv s"
  shows "cache_inv (snd (chat_with_mcp E um ch sp hist en mdl temp limit s))"
proof -
  obtain x s1 where st: "search_step E um ch sp en s = (x, s1)"
    by (cases "search_step E um ch sp en s") auto
  have i1: "cache_inv s1"
    using search_step_inv [OF assms st] .
  show ?thesis
  proof (cases x)
    case (Inl e)
    with st i1 show ?thesis
      by (simp add: chat_with_mcp_def)
  next
    case (Inr pr)
    obtain prompt r0 where pr: "pr = (prompt, r0)"
      by (cases pr)
    obtain y s2 where g: "generate E (final_request mdl (build_messages prompt hist um) temp limit) r0 s1 = (y, s2)"
      by (cases "generate E (final_request mdl (build_messages prompt hist um) temp limit) r0 s1") auto
    have "quiet s1 s2"
      using generate_effect [OF g] by simp
    then have "cache_inv s2"
      using i1 by (rule cache_inv_quiet)
    then show ?thesis
      using st Inr pr g by (simp add: chat_with_mcp_def)
  qed
qed

lemma decided_query_quiet: "decided_query E um ch s = Some (q, s1) \<Longrightarrow> quiet s s1"
  by (auto simp: decided_query_def
      split: if_splits option.splits prod.splits sum.splits dest: should_search_quiet)

lemma search_step_decided:
  assumes "decided_query E um ch s = Some (q, s1)"
    and "lookup_or_search E q s1 = (Inr (sm, rs), s2)"
  shows "\<exists>prompt.
     search_step E um ch sp True s =
       (Inr (prompt, initial_result\<lparr>search_performed := True, search_query := q,
                                   search_summary := sm, search_results := rs\<rparr>), s2)"
  using assms
  by (auto simp: search_step_def decided_query_def
      split: if_splits option.splits prod.splits sum.splits)

lemma lookup_or_search_returns: "\<exists>sm rs. fst (lookup_or_search E q s) = Inr (sm, rs)"
proof (cases "search_cache s (ckey_of q)")
  case (Some entry)
  then show ?thesis
    by (simp add: lookup_or_search_hit)
next
  case None
  obtain x s' where l: "lookup_or_search E q s = (x, s')"
    by (cases "lookup_or_search E q s") auto
  from lookup_or_search_miss [OF None l] show ?thesis
    using l by (auto split: if_splits)
qed

lemma turn_decided:
  assumes d: "decided_query E um ch s = Some (q, s1)"
    and l: "lookup_or_search E q s1 = (Inr (sm, rs), s2)"
  shows "\<exists>r s'. chat_with_mcp E um ch sp hist True mdl temp limit s = (Inr r, s') \<and>
           quiet s2 s' \<and> search_performed r \<and> search_query r = q \<and>
           search_summary r = sm \<and> search_results r = rs"
proof -
  from search_step_decided [OF d l, of sp] obtain prompt where
    st: "search_step E um ch sp True s =
       (Inr (prompt, initial_result\<lparr>search_performed := True, search_query := q,
                                   search_summary := sm, search_results := rs\<rparr>), s2)"
    by blast
  define r0 where "r0 = initial_result\<lparr>search_performed := True, search_query := q,
                                   search_summary := sm, search_results := rs\<rparr>"
  obtain y s' where g: "generate E (final_request mdl (build_messages prompt hist um) temp limit) r0 s2 = (y, s')"
    by (cases "generate E (final_request mdl (build_messages prompt hist um) temp limit) r0 s2") auto
  from generate_effect [OF g] obtain r where
    e: "quiet s2 s'" "y = Inr r" "search_performed r = search_performed r0"
       "search_query r = search_query r0" "search_summary r = search_summary r0"
       "search_results r = search_results r0"
    by blast
  have "chat_with_mcp E um ch sp hist True mdl temp limit s = (Inr r, s')"
    using st g e(2) by (simp add: chat_with_mcp_def r0_def)
  with e show ?thesis
    by (simp add: r0_def)
qed

lemma turn_miss:
  assumes d: "decided_query E um ch s = Some (q, s1)"
    and n: "search_cache s (ckey_of q) = None"
  shows "\<exists>rs s2 r s'.
     search_web E q 8 s1 = (Inr rs, s2) \<and>
     chat_with_mcp E um ch sp hist True mdl temp limit s = (Inr r, s') \<and>
     search_results r = rs \<and>
     method_calls (calls s') =
       method_calls (calls s) @ EvSearchWeb q 8 # (if rs = [] then [] else [EvSummarize q rs]) \<and>
     (if rs = [] then search_cache s' = search_cache s \<and> search_summary r = no_information_marker
      else search_cache s' =
             (search_cache s)(ckey_of q \<mapsto> \<lparr>summary = search_summary r, results = rs\<rparr>))"
proof -
  have q1: "quiet s s1"
    using decided_query_quiet [OF d] .
  then have n1: "search_cache s1 (ckey_of q) = None"
    using n by (simp add: quiet_def)
  obtain x s2 where l: "lookup_or_search E q s1 = (x, s2)"
    by (cases "lookup_or_search E q s1") auto
  from lookup_or_search_miss [OF n1 l] obtain rs sa where
    w: "search_web E q 8 s1 = (Inr rs, sa)"
    and m: "if rs = []
        then x = Inr (no_information_marker, []) \<and> search_cache s2 = search_cache s1 \<and>
             method_calls (calls s2) = method_calls (calls s1) @ [EvSearchWeb q 8]
        else \<exists>sm. x = Inr (sm, rs) \<and>
             search_cache s2 = (search_cache s1)(ckey_of q \<mapsto> \<lparr>summary = sm, results = rs\<rparr>) \<and>
             method_calls (calls s2) =
               method_calls (calls s1) @ [EvSearchWeb q 8, EvSummarize q rs]"
    by blast
  obtain sm where x: "x = Inr (sm, rs)"
    and c2: "search_cache s2 =
       (if rs = [] then search_cache s1
        else (search_cache s1)(ckey_of q \<mapsto> \<lparr>summary = sm, results = rs\<rparr>))"
    and m2: "method_calls (calls s2) =
       method_calls (calls s1) @ EvSearchWeb q 8 # (if rs = [] then [] else [EvSummarize q rs])"
    and e: "rs = [] \<longrightarrow> sm = no_information_marker"
    using m by (cases "rs = []") auto
  from turn_decided [OF d l [unfolded x], of sp hist mdl temp limit] obtain r s' where
    t: "chat_with_mcp E um ch sp hist True mdl temp limit s = (Inr r, s')"
    and q2: "quiet s2 s'" and f: "search_summary r = sm" "search_results r = rs"
    by blast
  have c: "search_cache s' = search_cache s2" "method_calls (calls s') = method_calls (calls s2)"
    "search_cache s1 = search_cache s" "method_calls (calls s1) = method_calls (calls s)"
    using q1 q2 by (simp_all add: quiet_def)
  show ?thesis
    using w t f c c2 m2 e by auto
qed





section \<open>Properties\<close>

subsection \<open>The summarizer\<close>

text \<open>
  C7. For every query, \<^verbatim>\<open>summarize_search_results\<close> on an empty result list returns the
  fixed marker for no information. It makes no model call: the only call it adds is its
  own entry, the world of the collaborators is untouched, and the model calls of the run
  are those made before.
\<close>

theorem summarize_empty_results:
  "summarize_search_results E q [] s =
     (Inr no_information_marker, s\<lparr>calls := calls s @ [EvSummarize q []]\<rparr>) \<and>
   world (snd (summarize_search_results E q [] s)) = world s \<and>
   chat_calls (calls (snd (summarize_search_results E q [] s))) = chat_calls (calls s)"
  by (simp add: summarize_search_results_def chat_calls_def)

text \<open>
  C6. When the result list is not empty and the model call of the summarizer raises, the
  method returns the fallback: for each of the first 5 results, the title between brackets,
  a newline and the first 300 code points of \<open>full_content\<close>, the pieces joined by a blank
  line. The only model call is the one that failed.
\<close>

theorem summarize_falls_back:
  assumes "rs \<noteq> []"
    and "chat_completions_create E (summary_request q rs) (world s) = (Inl e, w)"
  shows "summarize_search_results E q rs s =
           (Inr (py_join (newline @ newline)
                   (map (\<lambda>r. fallback_open @ title r @ fallback_close @ take 300 (full_content r))
                        (take 5 rs))),
            s\<lparr>world := w, calls := calls s @ [EvSummarize q rs, EvChat (summary_request q rs)]\<rparr>)"
  using assms
  by (simp add: summarize_search_results_def summarize_try_def call_chat_def fallback_summary_def
      py_slice_to_nonneg)

theorem summarize_falls_back_witness:
  "summarize_search_results demo (AStr (ustr ''taishan'')) [result_a] (start ([], [])) =
     (Inr (fallback_open @ ustr ''A'' @ fallback_close @ ustr ''abc''),
      \<lparr>search_cache = Map.empty, world = ([], []),
       calls = [EvSummarize (AStr (ustr ''taishan'')) [result_a],
                EvChat (summary_request (AStr (ustr ''taishan'')) [result_a])]\<rparr>)"
proof -
  have c: "chat_completions_create demo (summary_request (AStr (ustr ''taishan'')) [result_a])
             (world (start ([], []))) = (Inl (OtherError (ustr ''Connection error.'')), ([], []))"
    by (simp add: demo_defs)
  have t: "take 300 (full_content result_a) = ustr ''abc''" "title result_a = ustr ''A''"
    by (simp_all add: result_a_def ustr_def)
  show ?thesis
    using summarize_falls_back [OF _ c] t by (simp add: start_def)
qed

subsection \<open>The fetcher\<close>

text \<open>
  C8. For every bound \<open>n\<close> and every page whose cleaned text is longer than \<open>n\<close>,
  \<^verbatim>\<open>fetch_webpage_content\<close> returns the first \<open>n\<close> code points of the cleaned text followed
  by the three dots: a string of length \<open>n + 3\<close>. The bound is a maximum number of
  characters (line 90), so it is not negative.
\<close>

theorem fetch_webpage_content_truncates:
  assumes "page_text E u (world s) = (Inr text, w)"
    and "0 \<le> n"
    and "n < int (length (clean_lines text))"
  shows "fst (fetch_webpage_content E u n s) = Inr (take (nat n) (clean_lines text) @ ellipsis) \<and>
         int (length (take (nat n) (clean_lines text) @ ellipsis)) = n + 3"
  using assms
  by (simp add: fetch_webpage_content_def fetch_webpage_content_try_def call_page_def
      truncate_text_def py_slice_to_nonneg length_ellipsis)

theorem fetch_webpage_content_truncates_witness:
  "fst (fetch_webpage_content demo (ustr ''http://a'') 2 (start ([], []))) = Inr (ustr ''ab...'') \<and>
   int (length (ustr ''ab...'')) = 2 + 3"
proof -
  have p: "page_text demo (ustr ''http://a'') (world (start ([], []))) = (Inr (ustr ''abc''), ([], []))"
    by (simp add: demo_defs)
  have n: "(2::int) < int (length (clean_lines (ustr ''abc'')))"
    by (simp add: clean_abc) (simp add: ustr_def)
  have e: "take (nat 2) (clean_lines (ustr ''abc'')) @ ellipsis = ustr ''ab...''"
    by (simp add: clean_abc) (simp add: ustr_def ellipsis_def)
  have z: "(0::int) \<le> 2"
    by simp
  show ?thesis
    using fetch_webpage_content_truncates [OF p z n] unfolding e .
qed

subsection \<open>The decision\<close>

text \<open>
  When the \<^verbatim>\<open>try\<close> block of \<^verbatim>\<open>should_search\<close> raises (the model call raises, the reply has
  no choice or no content, or \<^verbatim>\<open>json.loads\<close> rejects the content:
  \<open>should_search_try_fails_iff\<close>), the method returns the default of line 82: no search,
  an empty query and the fixed reason, the source's words for "decision failed". The turn
  then makes two calls, the decision call and the final call, and the messages of the final
  call are the original system prompt, the history and the user message; the search fields
  of the result are those of lines 341-344.
\<close>

lemma decision_raise_is_safe:
  assumes "fst (should_search_try E um cn s) = Inl e"
    and "character (ustr ''name'') = Some cn"
  shows "fst (should_search E um cn s) =
           Inr (PDict [(ustr ''need_search'', PBool False), (ustr ''search_query'', PStr []),
                       (ustr ''reason'', PStr decision_failed_reason)]) \<and>
         (\<exists>r s'. chat_with_mcp E um character sp hist True mdl temp limit s = (Inr r, s') \<and>
            \<not> search_performed r \<and> search_query r = AStr [] \<and> search_summary r = [] \<and>
            search_results r = [] \<and>
            calls s' =
              calls s @
              [EvChat (decision_request um cn),
               EvChat \<lparr>model = mdl,
                       messages =
                         \<lparr>role = ustr ''system'', content = sp\<rparr> # hist @
                         [\<lparr>role = ustr ''user'', content = um\<rparr>],
                       temperature = temp, response_format = None, max_tokens = Some limit\<rparr>])"
proof -
  obtain s1 where t: "should_search_try E um cn s = (Inl e, s1)"
    using assms(1) by (cases "should_search_try E um cn s") auto
  have c1: "calls s1 = calls s @ [EvChat (decision_request um cn)]"
    using t by (auto simp: should_search_try_def call_chat_def
        split: prod.splits sum.splits option.splits)
  have d: "should_search E um cn s = (Inr default_decision, s1)"
    using t by (simp add: should_search_def)
  have n: "py_getitem default_decision (ustr ''need_search'') = Inr (PBool False)"
    by (simp add: default_decision_def)
  have st: "search_step E um character sp True s = (Inr (sp, initial_result), s1)"
    using d n assms(2) by (simp add: search_step_def)
  have g: "\<exists>r s'. generate E (final_request mdl (build_messages sp hist um) temp limit)
        initial_result s1 = (Inr r, s') \<and>
      \<not> search_performed r \<and> search_query r = AStr [] \<and> search_summary r = [] \<and>
      search_results r = [] \<and>
      calls s' = calls s1 @ [EvChat (final_request mdl (build_messages sp hist um) temp limit)]"
    by (auto simp: generate_def generate_try_def call_chat_def initial_result_def
        split: prod.splits sum.splits option.splits)
  show ?thesis
    using d g st c1
    by (simp add: chat_with_mcp_def default_decision_def build_messages_def final_request_def)
qed

lemma decision_raise_is_safe_example:
  "fst (should_search demo (ustr ''hi'') (ustr ''Wukong'')
          (start ([reply (ustr ''not json''), reply (ustr ''hello'')], []))) =
     Inr (PDict [(ustr ''need_search'', PBool False), (ustr ''search_query'', PStr []),
                 (ustr ''reason'', PStr decision_failed_reason)]) \<and>
   (\<exists>r s'. chat_with_mcp demo (ustr ''hi'') wukong (ustr ''sys'') [] True (ustr ''gpt-4o-ca'') 0.8 2000
              (start ([reply (ustr ''not json''), reply (ustr ''hello'')], [])) = (Inr r, s') \<and>
      \<not> search_performed r \<and> search_query r = AStr [] \<and> search_summary r = [] \<and>
      search_results r = [] \<and>
      calls s' =
        calls (start ([reply (ustr ''not json''), reply (ustr ''hello'')], [])) @
        [EvChat (decision_request (ustr ''hi'') (ustr ''Wukong'')),
         EvChat \<lparr>model = ustr ''gpt-4o-ca'',
                 messages =
                   \<lparr>role = ustr ''system'', content = ustr ''sys''\<rparr> # [] @
                   [\<lparr>role = ustr ''user'', content = ustr ''hi''\<rparr>],
                 temperature = 0.8, response_format = None, max_tokens = Some 2000\<rparr>])"
proof -
  have f: "fst (should_search_try demo (ustr ''hi'') (ustr ''Wukong'')
          (start ([reply (ustr ''not json''), reply (ustr ''hello'')], []))) =
     Inl (OtherError (ustr ''Expecting value: line 1 column 1 (char 0)''))"
    by (simp add: model_defs demo_defs ustr_def)
  have n: "wukong (ustr ''name'') = Some (ustr ''Wukong'')"
    by (simp add: wukong_def)
  show ?thesis
    using decision_raise_is_safe [where character = wukong, OF f n, where sp = "ustr ''sys''"
        and hist = "[]" and mdl = "ustr ''gpt-4o-ca''" and temp = "0.8" and limit = 2000]
    by blast
qed

text \<open>
  C3 asks for the default also when the reply is malformed. A reply that \<^verbatim>\<open>json.loads\<close>
  accepts is returned as it is by lines 77-78, whatever its shape: the handler of line 80
  is not reached, though the docstring promises the three keys. With the reply \<^verbatim>\<open>{}\<close> the
  method returns the empty dictionary, not the default, and the turn has no result at all:
  line 354 raises for the missing key, before the final call is made.
\<close>

theorem should_search_passes_malformed_reply:
  "fst (should_search demo (ustr ''hi'') (ustr ''Wukong'')
          (start ([reply (ustr ''{}''), reply (ustr ''hello'')], []))) = Inr (PDict []) \<and>
   PDict [] \<noteq>
     PDict [(ustr ''need_search'', PBool False), (ustr ''search_query'', PStr []),
            (ustr ''reason'', PStr decision_failed_reason)] \<and>
   chat_with_mcp demo (ustr ''hi'') wukong (ustr ''sys'') [] True (ustr ''gpt-4o-ca'') 0.8 2000
     (start ([reply (ustr ''{}''), reply (ustr ''hello'')], [])) =
     (Inl (KeyError (ustr ''need_search'')),
      \<lparr>search_cache = Map.empty, world = ([reply (ustr ''hello'')], []),
       calls = [EvChat (decision_request (ustr ''hi'') (ustr ''Wukong''))]\<rparr>)"
  by (simp add: model_defs demo_defs ustr_def)

text \<open>
  C2 asks that no reply of the decision model makes \<^verbatim>\<open>chat_with_mcp\<close> raise. A reply that is
  valid JSON but lacks a key passes \<^verbatim>\<open>should_search\<close> as it is, against the shape its
  docstring promises, and line 354 reads \<^verbatim>\<open>decision['need_search']\<close> outside any \<^verbatim>\<open>try\<close>:
  with the reply \<^verbatim>\<open>{}\<close> the turn raises a KeyError to the caller.
\<close>

theorem chat_with_mcp_raises_on_empty_decision:
  "fst (chat_with_mcp demo (ustr ''hi'') wukong (ustr ''sys'') [] True (ustr ''gpt-4o-ca'') 0.8 2000
         (start ([reply (ustr ''{}'')], []))) = Inl (KeyError (ustr ''need_search''))"
  by (simp add: model_defs demo_defs ustr_def)

subsection \<open>The final generation\<close>

text \<open>
  C5. If the final model call raises, the turn still returns a result: its response is the
  fixed apology followed by \<^verbatim>\<open>str(e)\<close>, and \<open>tokens_used\<close> and \<open>cost\<close> are zero.
\<close>

theorem generation_failure_apology:
  assumes "search_step E um character sp enable s = (Inr (prompt, r0), s1)"
    and "chat_completions_create E
           (final_request mdl (build_messages prompt hist um) temp limit) (world s1) = (Inl e, w)"
  shows "\<exists>r s'. chat_with_mcp E um character sp hist enable mdl temp limit s = (Inr r, s') \<and>
           response r = Some (apology_prefix @ exc_str e) \<and> tokens_used r = 0 \<and> cost r = 0"
  using assms search_step_result [OF assms(1)]
  by (simp add: chat_with_mcp_def generate_def generate_try_def call_chat_def)

theorem generation_failure_apology_witness:
  "\<exists>r s'. chat_with_mcp demo (ustr ''hi'') wukong (ustr ''sys'') [] True (ustr ''gpt-4o-ca'') 0.8 2000
             (start ([reply decision_text, reply (ustr ''a summary'')], [Inr [hit_a]])) = (Inr r, s') \<and>
     response r = Some (apology_prefix @ ustr ''Connection error.'') \<and>
     tokens_used r = 0 \<and> cost r = 0"
proof -
  obtain prompt r0 s1 where
    st: "search_step demo (ustr ''hi'') wukong (ustr ''sys'') True
       (start ([reply decision_text, reply (ustr ''a summary'')], [Inr [hit_a]])) = (Inr (prompt, r0), s1)"
    and w: "world s1 = ([], [])"
    using searching_step by blast
  have c: "chat_completions_create demo
             (final_request (ustr ''gpt-4o-ca'') (build_messages prompt [] (ustr ''hi'')) 0.8 2000)
             (world s1) = (Inl (OtherError (ustr ''Connection error.'')), ([], []))"
    by (simp add: w demo_def scripted_def)
  show ?thesis
    using generation_failure_apology [OF st c] by simp
qed

text \<open>
  C9. In every turn that returns, \<open>tokens_used\<close> and \<open>cost\<close> are what the reply of the final
  call alone accounts for (\<open>usage_of_reply\<close>). The decision and the summarization calls
  happen in the search step, and the result that leaves that step still has both fields at
  zero, also when a search was performed.
\<close>

theorem usage_counts_final_call_only:
  assumes "fst (chat_with_mcp E um character sp hist enable mdl temp limit s) = Inr r"
  shows "\<exists>prompt r0 s1.
           search_step E um character sp enable s = (Inr (prompt, r0), s1) \<and>
           tokens_used r0 = 0 \<and> cost r0 = 0 \<and>
           (tokens_used r, cost r) =
             usage_of_reply
               (fst (chat_completions_create E
                       (final_request mdl (build_messages prompt hist um) temp limit) (world s1)))"
proof (cases "search_step E um character sp enable s")
  case (Pair x s1)
  show ?thesis
  proof (cases x)
    case (Inl e)
    with Pair assms show ?thesis
      by (simp add: chat_with_mcp_def)
  next
    case (Inr pr)
    obtain prompt r0 where pr: "pr = (prompt, r0)"
      by (cases pr)
    have st: "search_step E um character sp enable s = (Inr (prompt, r0), s1)"
      using Pair Inr pr by simp
    have z: "tokens_used r0 = 0" "cost r0 = 0"
      using search_step_result [OF st] by simp_all
    have g: "fst (generate E (final_request mdl (build_messages prompt hist um) temp limit) r0 s1) = Inr r"
      using assms st by (simp add: chat_with_mcp_def)
    show ?thesis
      using st z generate_usage [OF g z] by blast
  qed
qed

theorem usage_counts_final_call_only_witness:
  "\<exists>r. fst (chat_with_mcp demo (ustr ''hi'') wukong (ustr ''sys'') [] True (ustr ''gpt-4o-ca'') 0.8 2000
              (start ([reply decision_text, reply (ustr ''a summary''), reply (ustr ''hello'')],
                      [Inr [hit_a]]))) = Inr r \<and>
     search_performed r \<and> tokens_used r = 150 \<and>
     (\<exists>prompt r0 s1.
         search_step demo (ustr ''hi'') wukong (ustr ''sys'') True
           (start ([reply decision_text, reply (ustr ''a summary''), reply (ustr ''hello'')],
                   [Inr [hit_a]])) = (Inr (prompt, r0), s1) \<and>
         tokens_used r0 = 0 \<and> cost r0 = 0 \<and>
         (tokens_used r, cost r) =
           usage_of_reply
             (fst (chat_completions_create demo
                     (final_request (ustr ''gpt-4o-ca'') (build_messages prompt [] (ustr ''hi'')) 0.8 2000)
                     (world s1))))"
proof -
  have "\<exists>r. fst (chat_with_mcp demo (ustr ''hi'') wukong (ustr ''sys'') [] True (ustr ''gpt-4o-ca'') 0.8 2000
              (start ([reply decision_text, reply (ustr ''a summary''), reply (ustr ''hello'')],
                      [Inr [hit_a]]))) = Inr r \<and> search_performed r \<and> tokens_used r = 150"
    by (simp add: model_defs demo_defs ustr_def)
  then obtain r where
    r: "fst (chat_with_mcp demo (ustr ''hi'') wukong (ustr ''sys'') [] True (ustr ''gpt-4o-ca'') 0.8 2000
              (start ([reply decision_text, reply (ustr ''a summary''), reply (ustr ''hello'')],
                      [Inr [hit_a]]))) = Inr r"
    and p: "search_performed r" "tokens_used r = 150"
    by blast
  show ?thesis
    using r p usage_counts_final_call_only [OF r] by blast
qed

subsection \<open>The search\<close>

text \<open>
  C4, as the code has it. For any query and any behaviour of the backend and of the
  fetcher, \<^verbatim>\<open>search_web\<close> returns a list and never raises. During the call the backend is
  asked with the parameters of the strategies, in their order, at most once each. The
  entries of the list are built, in order, from the hits of those answers that the loop
  read (\<open>hits_read\<close>): the url of an entry is the \<open>href\<close> of its hit, read with
  \<^verbatim>\<open>r.get('href', '')\<close>, so it is empty when the hit has no \<open>href\<close> or an empty one; title
  and snippet are the title and the body of the hit. Nothing else enters the list.
\<close>

theorem search_web_returns_list:
  "\<exists>rs s' bcs. search_web E q n s = (Inr rs, s') \<and>
     backend_calls (calls s') = backend_calls (calls s) @ bcs \<and>
     map fst bcs = take (length bcs) (map (search_params q n) search_strategies) \<and>
     map entry_fields rs = map hit_fields (hits_read (map snd bcs))"
proof -
  obtain x s' where r: "search_web E q n s = (x, s')"
    by (cases "search_web E q n s") auto
  from search_web_effect [OF r] obtain rs bcs where
    x: "x = Inr rs"
    and b: "backend_calls (calls s') = backend_calls (calls s) @ bcs"
    and p: "map fst bcs = take (length bcs) (map (search_params q n) search_strategies)"
    and m: "map entry_fields rs = map hit_fields (hits_read (map snd bcs))"
    by blast
  have "search_web E q n s = (Inr rs, s')"
    using r x by simp
  with b p m show ?thesis
    by blast
qed

text \<open>
  An example with two answers. In the first the second hit has the title \<^verbatim>\<open>None\<close>: the hit
  before it is kept, the loop raises, and the second strategy adds its hit to the same list.
\<close>

theorem search_web_returns_list_witness:
  "fst (search_web demo taishan 8 (start ([], [Inr [hit_a, hit_untitled, hit_c], Inr [hit_c]]))) =
     Inr [result_a, result_c] \<and>
   (\<exists>rs s' bcs.
      search_web demo taishan 8 (start ([], [Inr [hit_a, hit_untitled, hit_c], Inr [hit_c]])) =
        (Inr rs, s') \<and>
      backend_calls (calls s') =
        backend_calls (calls (start ([], [Inr [hit_a, hit_untitled, hit_c], Inr [hit_c]]))) @ bcs \<and>
      map fst bcs = take (length bcs) (map (search_params taishan 8) search_strategies) \<and>
      map entry_fields rs = map hit_fields (hits_read (map snd bcs)))"
proof -
  have "fst (search_web demo taishan 8 (start ([], [Inr [hit_a, hit_untitled, hit_c], Inr [hit_c]]))) =
      Inr [result_a, result_c]"
    by (simp add: model_defs demo_defs text_defs taishan_def)
  then show ?thesis
    using search_web_returns_list [of demo taishan 8
        "start ([], [Inr [hit_a, hit_untitled, hit_c], Inr [hit_c]])"]
    by blast
qed

text \<open>
  The url need not be non-empty: a hit without \<open>href\<close> gives an entry whose url is the
  default of line 167, the empty string.
\<close>

theorem search_web_empty_url:
  "fst (search_web demo (AStr (ustr ''taishan'')) 8 (start ([], [Inr [hit_bare]]))) =
     Inr [\<lparr>title = ustr ''B'', snippet = ustr ''about b'', full_content = ustr ''about b'', url = []\<rparr>]"
  by (simp add: model_defs demo_defs ustr_def)

text \<open>When every strategy raises, the three are tried in order and the list is empty.\<close>

lemma search_web_all_strategies_raise:
  "search_web demo taishan 8 (start ([], [])) =
     (Inr [],
      \<lparr>search_cache = Map.empty, world = ([], []),
       calls = [EvSearchWeb taishan 8,
                EvDdgs (search_params taishan 8 (None, ustr ''moderate''))
                  (Inl (OtherError (ustr ''No results found.''))),
                EvDdgs (search_params taishan 8 (Some (ustr ''wt-wt''), ustr ''moderate''))
                  (Inl (OtherError (ustr ''No results found.''))),
                EvDdgs (search_params taishan 8 (Some (ustr ''cn-zh''), ustr ''off''))
                  (Inl (OtherError (ustr ''No results found.'')))]\<rparr>)"
  by (simp add: call_ddgs_def try_strategy_def search_web_try_def search_web_def
      search_strategies_def demo_def scripted_def start_def)

subsection \<open>The cache\<close>

text \<open>
  C10. Every turn preserves the invariant that no cache entry holds an empty result list.
  A turn that decides a query absent from the cache runs \<^verbatim>\<open>search_web\<close> for it, and when
  that search returns the empty list the turn leaves the cache as it was: the query is not
  written. The query is then still absent, so the same holds for the next turn that decides
  it: the search is run again, for as long as it finds nothing.
\<close>

theorem cache_holds_no_empty_results:
  "(cache_inv s \<longrightarrow> cache_inv (snd (chat_with_mcp E um ch sp hist en mdl temp limit s))) \<and>
   (decided_query E um ch s = Some (q, s1) \<and> search_cache s (ckey_of q) = None \<longrightarrow>
      (\<exists>rs s2. search_web E q 8 s1 = (Inr rs, s2) \<and>
         method_calls (calls (snd (chat_with_mcp E um ch sp hist True mdl temp limit s))) =
           method_calls (calls s) @ EvSearchWeb q 8 # (if rs = [] then [] else [EvSummarize q rs]) \<and>
         (rs = [] \<longrightarrow>
            search_cache (snd (chat_with_mcp E um ch sp hist True mdl temp limit s)) =
              search_cache s)))"
proof (intro conjI impI)
  assume "cache_inv s"
  then show "cache_inv (snd (chat_with_mcp E um ch sp hist en mdl temp limit s))"
    by (rule chat_with_mcp_inv)
next
  assume a: "decided_query E um ch s = Some (q, s1) \<and> search_cache s (ckey_of q) = None"
  then have d: "decided_query E um ch s = Some (q, s1)"
    and n: "search_cache s (ckey_of q) = None"
    by simp_all
  from turn_miss [OF d n, of sp hist mdl temp limit]
  obtain rs s2 r s' where
    w: "search_web E q 8 s1 = (Inr rs, s2)"
    and t: "chat_with_mcp E um ch sp hist True mdl temp limit s = (Inr r, s')"
    and m: "method_calls (calls s') =
       method_calls (calls s) @ EvSearchWeb q 8 # (if rs = [] then [] else [EvSummarize q rs])"
    and c: "if rs = [] then search_cache s' = search_cache s \<and> search_summary r = no_information_marker
      else search_cache s' =
             (search_cache s)(ckey_of q \<mapsto> \<lparr>summary = search_summary r, results = rs\<rparr>)"
    by blast
  have "rs = [] \<longrightarrow> search_cache s' = search_cache s"
    using c by simp
  with w t m show "\<exists>rs s2. search_web E q 8 s1 = (Inr rs, s2) \<and>
         method_calls (calls (snd (chat_with_mcp E um ch sp hist True mdl temp limit s))) =
           method_calls (calls s) @ EvSearchWeb q 8 # (if rs = [] then [] else [EvSummarize q rs]) \<and>
         (rs = [] \<longrightarrow>
            search_cache (snd (chat_with_mcp E um ch sp hist True mdl temp limit s)) =
              search_cache s)"
    by auto
qed

theorem cache_holds_no_empty_results_witness:
  "cache_inv (start empty_then_found_script) \<and>
   cache_inv (snd (turn (start empty_then_found_script))) \<and>
   (\<exists>s1. decided_query demo (ustr ''hi'') wukong (start empty_then_found_script) = Some (taishan, s1) \<and>
      fst (search_web demo taishan 8 s1) = Inr []) \<and>
   search_cache (start empty_then_found_script) (ckey_of taishan) = None \<and>
   method_calls (calls (snd (turn (start empty_then_found_script)))) =
     method_calls (calls (start empty_then_found_script)) @ [EvSearchWeb taishan 8] \<and>
   search_cache (snd (turn (start empty_then_found_script))) =
     search_cache (start empty_then_found_script)"
proof -
  have i: "cache_inv (start empty_then_found_script)"
    by (simp add: cache_inv_def start_def)
  have "\<exists>s1. decided_query demo (ustr ''hi'') wukong (start empty_then_found_script) = Some (taishan, s1) \<and>
      fst (search_web demo taishan 8 s1) = Inr []"
    by (simp add: decided_query_def model_defs demo_defs turn_defs text_defs)
  then obtain s1 where
    d: "decided_query demo (ustr ''hi'') wukong (start empty_then_found_script) = Some (taishan, s1)"
    and w: "fst (search_web demo taishan 8 s1) = Inr []"
    by blast
  have fresh: "search_cache (start empty_then_found_script) (ckey_of taishan) = None"
    by (simp add: start_def)
  note th = cache_holds_no_empty_results [of "start empty_then_found_script" demo "ustr ''hi''"
      wukong "ustr ''sys''" "[]" True "ustr ''gpt-4o-ca''" "0.8" 2000 taishan s1]
  show ?thesis
    using th i d w fresh unfolding turn_def by auto
qed




end
